theory Spec2Isabelle
  imports Main "HOL-Library.Sublist"
begin

section \<open>Go library primitives used by provider configuration\<close>

subsection \<open>Formatting with the verbs d and q\<close>

definition digit_char :: "nat \<Rightarrow> char" where
  "digit_char n = ''0123456789'' ! n"

text \<open>Decimal digits of a natural number, most significant first (the verb d of fmt.Sprintf).\<close>

function fmt_nat :: "nat \<Rightarrow> string" where
  "fmt_nat n = (if n < 10 then [digit_char n] else fmt_nat (n div 10) @ [digit_char (n mod 10)])"
  by pat_completeness auto
termination
  by (relation "measure id") auto

declare fmt_nat.simps [simp del]

definition fmt_d :: "int \<Rightarrow> string" where
  "fmt_d i = (if i < 0 then CHR ''-'' # fmt_nat (nat (- i)) else fmt_nat (nat i))"

text \<open>
  The verb q of fmt.Sprintf puts a string in double quotes. It is applied here only to the
  schema keys, which are lower-case letters and underscores, so nothing is escaped.
\<close>

definition fmt_q :: "string \<Rightarrow> string" where
  "fmt_q s = [CHR 0x22] @ s @ [CHR 0x22]"

subsection \<open>strconv.ParseInt with base 10 and bit size 64\<close>

datatype NumError = ErrSyntax | ErrRange

definition is_digit :: "char \<Rightarrow> bool" where
  "is_digit c = (48 \<le> (of_char c :: nat) \<and> (of_char c :: nat) \<le> 57)"


text \<open>
  ParseUint reads the bytes from left to right into an unsigned 64-bit number. A byte that is
  not a decimal digit ends the scan with a syntax error. A digit that takes the number beyond
  the unsigned 64-bit range ends the scan with the largest value and a range error; the bytes
  after it are not read. \<open>cutoff\<close> is the least number whose tenfold exceeds the range.
\<close>

definition maxUint64 :: nat where
  "maxUint64 = 18446744073709551615"

definition cutoff :: nat where
  "cutoff = maxUint64 div 10 + 1"

fun ParseUint_loop :: "nat \<Rightarrow> string \<Rightarrow> nat \<times> NumError option" where
  "ParseUint_loop n [] = (n, None)"
| "ParseUint_loop n (c # cs) =
     (if \<not> is_digit c then (0, Some ErrSyntax)
      else if cutoff \<le> n then (maxUint64, Some ErrRange)
      else
        let n1 = n * 10 + ((of_char c :: nat) - 48) in
          if maxUint64 < n1 then (maxUint64, Some ErrRange)
          else ParseUint_loop n1 cs)"

definition ParseUint :: "string \<Rightarrow> nat \<times> NumError option" where
  "ParseUint s = (if s = [] then (0, Some ErrSyntax) else ParseUint_loop 0 s)"

text \<open>
  ParseInt picks off a leading sign and converts the rest with ParseUint. A syntax error of
  ParseUint gives the value 0 and that error. Otherwise the unsigned number, which is the
  largest value after a range error, is checked against the signed 64-bit range: outside of
  it the result is the nearer bound and a range error.
\<close>

definition ParseInt :: "string \<Rightarrow> int \<times> NumError option" where
  "ParseInt s0 =
     (if s0 = [] then (0, Some ErrSyntax)
      else
        let neg = (hd s0 = CHR ''-'');
            s = (if hd s0 = CHR ''+'' \<or> hd s0 = CHR ''-'' then tl s0 else s0);
            un = fst (ParseUint s);
            err = snd (ParseUint s)
        in
          if err \<noteq> None \<and> err \<noteq> Some ErrRange then (0, err)
          else if \<not> neg \<and> 2 ^ 63 \<le> un then (2 ^ 63 - 1, Some ErrRange)
          else if neg \<and> 2 ^ 63 < un then (- (2 ^ 63), Some ErrRange)
          else (if neg then - int un else int un, None))"

subsection \<open>Conversion from int64 to int\<close>

text \<open>The conversion keeps the low \<open>w\<close> bits, read as a signed number; \<open>w\<close> is strconv.IntSize.\<close>

definition to_int :: "nat \<Rightarrow> int \<Rightarrow> int" where
  "to_int w x = (x + 2 ^ (w - 1)) mod 2 ^ w - 2 ^ (w - 1)"

section \<open>The constants and helpers of the repository\<close>

text \<open>
  The schema keys, as the tfsdk tags of CloudflareProviderModel and the attribute
  descriptions give them.
\<close>

definition EmailSchemaKey :: string where "EmailSchemaKey = ''email''"
definition APIKeySchemaKey :: string where "APIKeySchemaKey = ''api_key''"
definition APITokenSchemaKey :: string where "APITokenSchemaKey = ''api_token''"
definition APIUserServiceKeySchemaKey :: string where
  "APIUserServiceKeySchemaKey = ''api_user_service_key''"

text \<open>
  The names of the environment variables, the default values and the user agent format live in
  the package consts; they are parameters here. \<open>UserAgentDefault\<close> stands for fmt.Sprintf
  applied to the format string of that name and its three arguments.
\<close>

record constants =
  APIHostnameEnvVarKey :: string
  APIHostnameDefault :: string
  APIBasePathEnvVarKey :: string
  APIBasePathDefault :: string
  RPSEnvVarKey :: string
  RPSDefault :: string
  RetriesEnvVarKey :: string
  RetriesDefault :: string
  MinimumBackoffEnvVar :: string
  MinimumBackoffDefault :: string
  MaximumBackoffEnvVarKey :: string
  MaximumBackoffDefault :: string
  APITokenEnvVarKey :: string
  APIKeyEnvVarKey :: string
  EmailEnvVarKey :: string
  APIUserServiceKeyEnvVarKey :: string
  AccountIDEnvVarKey :: string
  UserAgentDefault :: "string \<Rightarrow> string \<Rightarrow> string \<Rightarrow> string"

text \<open>
  What the process and the platform supply: strconv.IntSize (32 or 64), the environment,
  logging.IsDebugOrHigher() and meta.SDKVersionString().
\<close>

record host =
  IntSize :: nat
  Environ :: "string \<Rightarrow> string option"
  IsDebugOrHigher :: bool
  SDKVersionString :: string

text \<open>
  Modelled from the spec: utils.GetDefaultFromEnv is not among the sources. Given a variable
  name and a fallback, it returns the environment value if present and non-empty, else the
  fallback.
\<close>

definition GetDefaultFromEnv :: "host \<Rightarrow> string \<Rightarrow> string \<Rightarrow> string" where
  "GetDefaultFromEnv h key defaultValue =
     (case Environ h key of
        None \<Rightarrow> defaultValue
      | Some v \<Rightarrow> if v \<noteq> [] then v else defaultValue)"

section \<open>The client options and the client configuration\<close>

text \<open>
  The options of cloudflare-go that configuration builds. \<open>UsingRateLimit\<close> carries the
  64-bit integer whose conversion to float64 is passed to the library.
\<close>

datatype cf_option =
    UsingRateLimit int
  | UsingRetryPolicy int int int
  | BaseURL string
  | Debug bool
  | UserAgent string
  | UsingAccount string

record Config =
  Email :: string
  APIKey :: string
  APIUserServiceKey :: string
  APIToken :: string
  Options :: "cf_option list"

datatype Severity = SeverityError | SeverityWarning

record Diagnostic =
  Severity :: Severity
  Summary :: string
  Detail :: string

section \<open>The SDKv2 provider\<close>

text \<open>
  The configuration as schema.ResourceData holds it: each optional attribute is absent
  (\<open>None\<close>) or present with a value.
\<close>

record schema_ResourceData =
  d_email :: "string option"
  d_api_key :: "string option"
  d_api_token :: "string option"
  d_api_user_service_key :: "string option"
  d_rps :: "int option"
  d_retries :: "int option"
  d_min_backoff :: "int option"
  d_max_backoff :: "int option"
  d_account_id :: "string option"
  d_api_hostname :: "string option"
  d_api_base_path :: "string option"

text \<open>
  \<open>d.Get\<close> returns the value of an attribute, or the zero value of its type when the
  attribute is absent. \<open>d.GetOk\<close> returns that value and whether the attribute has been
  set to a value other than the zero value.
\<close>

definition Get_string :: "string option \<Rightarrow> string" where
  "Get_string a = (case a of None \<Rightarrow> [] | Some v \<Rightarrow> v)"

definition Get_int :: "int option \<Rightarrow> int" where
  "Get_int a = (case a of None \<Rightarrow> 0 | Some v \<Rightarrow> v)"

definition GetOk_string :: "string option \<Rightarrow> string \<times> bool" where
  "GetOk_string a = (Get_string a, Get_string a \<noteq> [])"

definition GetOk_int :: "int option \<Rightarrow> int \<times> bool" where
  "GetOk_int a = (Get_int a, Get_int a \<noteq> 0)"

subsection \<open>The resolution of each field in configure\<close>

definition sdkv2_baseHostname :: "constants \<Rightarrow> host \<Rightarrow> schema_ResourceData \<Rightarrow> string" where
  "sdkv2_baseHostname K h d =
     (if Get_string (d_api_hostname d) \<noteq> [] then Get_string (d_api_hostname d)
      else GetDefaultFromEnv h (APIHostnameEnvVarKey K) (APIHostnameDefault K))"

definition sdkv2_basePath :: "constants \<Rightarrow> host \<Rightarrow> schema_ResourceData \<Rightarrow> string" where
  "sdkv2_basePath K h d =
     (if Get_string (d_api_base_path d) \<noteq> [] then Get_string (d_api_base_path d)
      else GetDefaultFromEnv h (APIBasePathEnvVarKey K) (APIBasePathDefault K))"

definition sdkv2_rps :: "constants \<Rightarrow> host \<Rightarrow> schema_ResourceData \<Rightarrow> int" where
  "sdkv2_rps K h d =
     (if snd (GetOk_int (d_rps d)) then Get_int (d_rps d)
      else fst (ParseInt (GetDefaultFromEnv h (RPSEnvVarKey K) (RPSDefault K))))"

definition sdkv2_retries :: "constants \<Rightarrow> host \<Rightarrow> schema_ResourceData \<Rightarrow> int" where
  "sdkv2_retries K h d =
     (if snd (GetOk_int (d_retries d)) then Get_int (d_retries d)
      else fst (ParseInt (GetDefaultFromEnv h (RetriesEnvVarKey K) (RetriesDefault K))))"

definition sdkv2_minBackOff :: "constants \<Rightarrow> host \<Rightarrow> schema_ResourceData \<Rightarrow> int" where
  "sdkv2_minBackOff K h d =
     (if snd (GetOk_int (d_min_backoff d)) then Get_int (d_min_backoff d)
      else fst (ParseInt (GetDefaultFromEnv h (MinimumBackoffEnvVar K) (MinimumBackoffDefault K))))"

definition sdkv2_maxBackOff :: "constants \<Rightarrow> host \<Rightarrow> schema_ResourceData \<Rightarrow> int" where
  "sdkv2_maxBackOff K h d =
     (if snd (GetOk_int (d_max_backoff d)) then Get_int (d_max_backoff d)
      else fst (ParseInt (GetDefaultFromEnv h (MaximumBackoffEnvVarKey K) (MaximumBackoffDefault K))))"

definition sdkv2_apiToken :: "constants \<Rightarrow> host \<Rightarrow> schema_ResourceData \<Rightarrow> string" where
  "sdkv2_apiToken K h d =
     (if snd (GetOk_string (d_api_token d)) then fst (GetOk_string (d_api_token d))
      else GetDefaultFromEnv h (APITokenEnvVarKey K) [])"

definition sdkv2_apiKey :: "constants \<Rightarrow> host \<Rightarrow> schema_ResourceData \<Rightarrow> string" where
  "sdkv2_apiKey K h d =
     (if snd (GetOk_string (d_api_key d)) then fst (GetOk_string (d_api_key d))
      else GetDefaultFromEnv h (APIKeyEnvVarKey K) [])"

definition sdkv2_email :: "constants \<Rightarrow> host \<Rightarrow> schema_ResourceData \<Rightarrow> string" where
  "sdkv2_email K h d =
     (if snd (GetOk_string (d_email d)) then fst (GetOk_string (d_email d))
      else GetDefaultFromEnv h (EmailEnvVarKey K) [])"

definition sdkv2_apiUserServiceKey :: "constants \<Rightarrow> host \<Rightarrow> schema_ResourceData \<Rightarrow> string" where
  "sdkv2_apiUserServiceKey K h d =
     (if snd (GetOk_string (d_api_user_service_key d))
      then fst (GetOk_string (d_api_user_service_key d))
      else GetDefaultFromEnv h (APIUserServiceKeyEnvVarKey K) [])"

definition sdkv2_accountID :: "constants \<Rightarrow> host \<Rightarrow> schema_ResourceData \<Rightarrow> string" where
  "sdkv2_accountID K h d =
     (if snd (GetOk_string (d_account_id d)) then fst (GetOk_string (d_account_id d))
      else GetDefaultFromEnv h (AccountIDEnvVarKey K) [])"

subsection \<open>The diagnostics of configure\<close>

definition too_large :: "string \<Rightarrow> int \<Rightarrow> string" where
  "too_large field v = field @ '' value of '' @ fmt_d v @ '' is too large, try a smaller value.''"

definition not_set_correctly :: string where
  "not_set_correctly = fmt_q EmailSchemaKey @ '' is not set correctly''"

definition required_with :: string where
  "required_with =
     fmt_q EmailSchemaKey @ '' is required with '' @ fmt_q APIKeySchemaKey @
     '' and was not configured''"

definition must_provide_one_of :: string where
  "must_provide_one_of =
     ''must provide one of '' @ fmt_q APIKeySchemaKey @ '', '' @ fmt_q APITokenSchemaKey @
     '' or '' @ fmt_q APIUserServiceKeySchemaKey @ ''.''"

definition sdkv2_error :: "string \<Rightarrow> Diagnostic" where
  "sdkv2_error summary = \<lparr>Severity = SeverityError, Summary = summary, Detail = []\<rparr>"

subsection \<open>configure\<close>

text \<open>
  The options and credentials that configure has assembled when it calls config.Client, or
  the diagnostics with which it returns before. The source resolves the email inside the
  branch for a non-empty api key and returns there when the email is empty; the model tests
  the two conditions together. The call of tflog.Info only writes a log line and is left out.
\<close>

definition sdkv2_config ::
  "constants \<Rightarrow> host \<Rightarrow> string \<Rightarrow> string \<Rightarrow> schema_ResourceData \<Rightarrow> Diagnostic list + Config"
where
  "sdkv2_config K h version TerraformVersion d =
     (let baseURL = BaseURL (''https://'' @ sdkv2_baseHostname K h d @ sdkv2_basePath K h d);
          rps = sdkv2_rps K h d;
          limitOpt = UsingRateLimit rps;
          retries = sdkv2_retries K h d;
          minBackOff = sdkv2_minBackOff K h d;
          maxBackOff = sdkv2_maxBackOff K h d
      in
        if retries > int (IntSize h) then Inl [sdkv2_error (too_large ''retries'' retries)]
        else if minBackOff > int (IntSize h)
          then Inl [sdkv2_error (too_large ''min_backoff'' minBackOff)]
        else if maxBackOff > int (IntSize h)
          then Inl [sdkv2_error (too_large ''max_backoff'' maxBackOff)]
        else
          let retryOpt = UsingRetryPolicy (to_int (IntSize h) retries)
                (to_int (IntSize h) minBackOff) (to_int (IntSize h) maxBackOff);
              options = [limitOpt, retryOpt, baseURL];
              options = options @ [Debug (IsDebugOrHigher h)];
              ua = UserAgentDefault K TerraformVersion (SDKVersionString h) version;
              options = options @ [UserAgent ua];
              config = \<lparr>Email = [], APIKey = [], APIUserServiceKey = [], APIToken = [],
                         Options = options\<rparr>;
              apiToken = sdkv2_apiToken K h d;
              config = (if apiToken \<noteq> [] then config\<lparr>APIToken := apiToken\<rparr> else config);
              apiKey = sdkv2_apiKey K h d
          in
            if apiKey \<noteq> [] \<and> sdkv2_email K h d = [] then Inl [sdkv2_error not_set_correctly]
            else
              let config = (if apiKey \<noteq> []
                              then config\<lparr>APIKey := apiKey, Email := sdkv2_email K h d\<rparr>
                              else config);
                  apiUserServiceKey = sdkv2_apiUserServiceKey K h d;
                  config = (if apiUserServiceKey \<noteq> []
                              then config\<lparr>APIUserServiceKey := apiUserServiceKey\<rparr>
                              else config)
              in
                if apiKey = [] \<and> apiToken = [] \<and> apiUserServiceKey = []
                  then Inl [sdkv2_error must_provide_one_of]
                else
                  let accountID = sdkv2_accountID K h d;
                      options = (if accountID \<noteq> [] then options @ [UsingAccount accountID]
                                 else options)
                  in Inr (config\<lparr>Options := options\<rparr>))"

text \<open>
  configure itself: \<open>Client\<close> is the method config.Client, which returns an error message or
  the client; its error becomes the only diagnostic (diag.FromErr).
\<close>

definition configure ::
  "constants \<Rightarrow> host \<Rightarrow> (Config \<Rightarrow> string + 'c) \<Rightarrow> string \<Rightarrow> string \<Rightarrow> schema_ResourceData
     \<Rightarrow> Diagnostic list + 'c"
where
  "configure K h Client version TerraformVersion d =
     (case sdkv2_config K h version TerraformVersion d of
        Inl diags \<Rightarrow> Inl diags
      | Inr config \<Rightarrow>
          (case Client config of
             Inl err \<Rightarrow> Inl [sdkv2_error err]
           | Inr client \<Rightarrow> Inr client))"

section \<open>The framework provider\<close>

text \<open>
  A value of the plugin framework (types.String, types.Int64) is null, unknown or known.
  \<open>IsNull\<close> holds of the null value only; \<open>ValueString\<close> and \<open>ValueInt64\<close> return the
  known value and the zero value otherwise.
\<close>

datatype 'a tf_value = Null | Unknown | Known 'a

definition IsNull :: "'a tf_value \<Rightarrow> bool" where
  "IsNull v = (case v of Null \<Rightarrow> True | _ \<Rightarrow> False)"

definition ValueString :: "string tf_value \<Rightarrow> string" where
  "ValueString v = (case v of Known s \<Rightarrow> s | _ \<Rightarrow> [])"

definition ValueInt64 :: "int tf_value \<Rightarrow> int" where
  "ValueInt64 v = (case v of Known i \<Rightarrow> i | _ \<Rightarrow> 0)"

record CloudflareProviderModel =
  data_APIKey :: "string tf_value"
  data_APIUserServiceKey :: "string tf_value"
  data_Email :: "string tf_value"
  data_MinBackOff :: "int tf_value"
  data_RPS :: "int tf_value"
  data_AccountID :: "string tf_value"
  data_APIBasePath :: "string tf_value"
  data_APIToken :: "string tf_value"
  data_Retries :: "int tf_value"
  data_MaxBackoff :: "int tf_value"
  data_APIClientLogging :: "bool tf_value"
  data_APIHostname :: "string tf_value"

text \<open>
  The request: the diagnostics and the model that \<open>req.Config.Get\<close> produces, and the
  version of Terraform. The response: the diagnostics and the two client slots.
\<close>

record ConfigureRequest =
  Config_Get_diags :: "Diagnostic list"
  Config_Get_data :: CloudflareProviderModel
  TerraformVersion :: string

record 'c ConfigureResponse =
  Diagnostics :: "Diagnostic list"
  DataSourceData :: "'c option"
  ResourceData :: "'c option"

text \<open>
  \<open>Diagnostics.Append\<close> adds each diagnostic that the collection does not hold yet;
  \<open>AddError\<close> appends one error; \<open>HasError\<close> looks for an error.
\<close>

fun Append :: "Diagnostic list \<Rightarrow> Diagnostic list \<Rightarrow> Diagnostic list" where
  "Append diags [] = diags"
| "Append diags (x # xs) = Append (if x \<in> set diags then diags else diags @ [x]) xs"

definition AddError :: "Diagnostic list \<Rightarrow> string \<Rightarrow> string \<Rightarrow> Diagnostic list" where
  "AddError diags summary detail =
     Append diags [\<lparr>Severity = SeverityError, Summary = summary, Detail = detail\<rparr>]"

definition HasError :: "Diagnostic list \<Rightarrow> bool" where
  "HasError diags = list_ex (\<lambda>x. Severity x = SeverityError) diags"

subsection \<open>The resolution of each field in Configure\<close>

definition framework_baseHostname :: "constants \<Rightarrow> host \<Rightarrow> CloudflareProviderModel \<Rightarrow> string" where
  "framework_baseHostname K h data =
     (if ValueString (data_APIHostname data) \<noteq> [] then ValueString (data_APIHostname data)
      else GetDefaultFromEnv h (APIHostnameEnvVarKey K) (APIHostnameDefault K))"

definition framework_basePath :: "constants \<Rightarrow> host \<Rightarrow> CloudflareProviderModel \<Rightarrow> string" where
  "framework_basePath K h data =
     (if ValueString (data_APIBasePath data) \<noteq> [] then ValueString (data_APIBasePath data)
      else GetDefaultFromEnv h (APIBasePathEnvVarKey K) (APIBasePathDefault K))"

definition framework_rps :: "constants \<Rightarrow> host \<Rightarrow> CloudflareProviderModel \<Rightarrow> int" where
  "framework_rps K h data =
     (if \<not> IsNull (data_RPS data) then ValueInt64 (data_RPS data)
      else fst (ParseInt (GetDefaultFromEnv h (RPSEnvVarKey K) (RPSDefault K))))"

definition framework_retries :: "constants \<Rightarrow> host \<Rightarrow> CloudflareProviderModel \<Rightarrow> int" where
  "framework_retries K h data =
     (if \<not> IsNull (data_Retries data) then ValueInt64 (data_Retries data)
      else fst (ParseInt (GetDefaultFromEnv h (RetriesEnvVarKey K) (RetriesDefault K))))"

definition framework_minBackOff :: "constants \<Rightarrow> host \<Rightarrow> CloudflareProviderModel \<Rightarrow> int" where
  "framework_minBackOff K h data =
     (if \<not> IsNull (data_MinBackOff data) then ValueInt64 (data_MaxBackoff data)
      else fst (ParseInt (GetDefaultFromEnv h (MinimumBackoffEnvVar K) (MinimumBackoffDefault K))))"

definition framework_maxBackOff :: "constants \<Rightarrow> host \<Rightarrow> CloudflareProviderModel \<Rightarrow> int" where
  "framework_maxBackOff K h data =
     (if \<not> IsNull (data_MinBackOff data) then ValueInt64 (data_MaxBackoff data)
      else fst (ParseInt (GetDefaultFromEnv h (MaximumBackoffEnvVarKey K) (MaximumBackoffDefault K))))"

definition framework_apiToken :: "constants \<Rightarrow> host \<Rightarrow> CloudflareProviderModel \<Rightarrow> string" where
  "framework_apiToken K h data =
     (if \<not> IsNull (data_APIToken data) then ValueString (data_APIToken data)
      else GetDefaultFromEnv h (APITokenEnvVarKey K) [])"

definition framework_apiKey :: "constants \<Rightarrow> host \<Rightarrow> CloudflareProviderModel \<Rightarrow> string" where
  "framework_apiKey K h data =
     (if \<not> IsNull (data_APIKey data) then ValueString (data_APIKey data)
      else GetDefaultFromEnv h (APIKeyEnvVarKey K) [])"

definition framework_email :: "constants \<Rightarrow> host \<Rightarrow> CloudflareProviderModel \<Rightarrow> string" where
  "framework_email K h data =
     (if \<not> IsNull (data_Email data) then ValueString (data_Email data)
      else GetDefaultFromEnv h (EmailEnvVarKey K) [])"

definition framework_apiUserServiceKey ::
  "constants \<Rightarrow> host \<Rightarrow> CloudflareProviderModel \<Rightarrow> string"
where
  "framework_apiUserServiceKey K h data =
     (if \<not> IsNull (data_APIUserServiceKey data) then ValueString (data_APIUserServiceKey data)
      else GetDefaultFromEnv h (APIUserServiceKeyEnvVarKey K) [])"

definition framework_accountID :: "constants \<Rightarrow> host \<Rightarrow> CloudflareProviderModel \<Rightarrow> string" where
  "framework_accountID K h data =
     (if \<not> IsNull (data_AccountID data) then ValueString (data_AccountID data)
      else GetDefaultFromEnv h (AccountIDEnvVarKey K) [])"

subsection \<open>Configure\<close>

text \<open>
  What Configure has when it calls config.Client, once the model is decoded: the
  configuration, or the summary and detail of the error with which it returns before.
\<close>

definition framework_config ::
  "constants \<Rightarrow> host \<Rightarrow> string \<Rightarrow> string \<Rightarrow> CloudflareProviderModel \<Rightarrow> (string \<times> string) + Config"
where
  "framework_config K h version tfVersion data =
     (let baseURL = BaseURL (''https://'' @ framework_baseHostname K h data
                               @ framework_basePath K h data);
          rps = framework_rps K h data;
          limitOpt = UsingRateLimit rps;
          retries = framework_retries K h data;
          minBackOff = framework_minBackOff K h data;
          maxBackOff = framework_maxBackOff K h data
      in
        if retries > int (IntSize h)
          then Inl (too_large ''retries'' retries, too_large ''retries'' retries)
        else if minBackOff > int (IntSize h)
          then Inl (too_large ''min_backoff'' minBackOff, too_large ''min_backoff'' minBackOff)
        else if maxBackOff > int (IntSize h)
          then Inl (too_large ''max_backoff'' maxBackOff, too_large ''max_backoff'' maxBackOff)
        else
          let retryOpt = UsingRetryPolicy (to_int (IntSize h) retries)
                (to_int (IntSize h) minBackOff) (to_int (IntSize h) maxBackOff);
              options = [limitOpt, retryOpt, baseURL];
              options = options @ [Debug (IsDebugOrHigher h)];
              ua = UserAgentDefault K tfVersion (SDKVersionString h) version;
              options = options @ [UserAgent ua];
              config = \<lparr>Email = [], APIKey = [], APIUserServiceKey = [], APIToken = [],
                         Options = options\<rparr>;
              apiToken = framework_apiToken K h data;
              config = (if apiToken \<noteq> [] then config\<lparr>APIToken := apiToken\<rparr> else config);
              apiKey = framework_apiKey K h data
          in
            if apiKey \<noteq> [] \<and> framework_email K h data = []
              then Inl (not_set_correctly, required_with)
            else
              let config = (if apiKey \<noteq> []
                              then config\<lparr>APIKey := apiKey, Email := framework_email K h data\<rparr>
                              else config);
                  apiUserServiceKey = framework_apiUserServiceKey K h data;
                  config = (if apiUserServiceKey \<noteq> []
                              then config\<lparr>APIUserServiceKey := apiUserServiceKey\<rparr>
                              else config)
              in
                if apiKey = [] \<and> apiToken = [] \<and> apiUserServiceKey = []
                  then Inl (must_provide_one_of, must_provide_one_of)
                else
                  let accountID = framework_accountID K h data;
                      options = (if accountID \<noteq> [] then options @ [UsingAccount accountID]
                                 else options)
                  in Inr (config\<lparr>Options := options\<rparr>))"

text \<open>
  Configure: the response is passed in and returned updated. \<open>version\<close> is the version field
  of the provider, \<open>Client\<close> the method config.Client.
\<close>

definition Configure ::
  "constants \<Rightarrow> host \<Rightarrow> (Config \<Rightarrow> string + 'c) \<Rightarrow> string \<Rightarrow> ConfigureRequest
     \<Rightarrow> 'c ConfigureResponse \<Rightarrow> 'c ConfigureResponse"
where
  "Configure K h Client version req resp =
     (let resp = resp\<lparr>Diagnostics := Append (Diagnostics resp) (Config_Get_diags req)\<rparr> in
        if HasError (Diagnostics resp) then resp
        else
          (case framework_config K h version (TerraformVersion req) (Config_Get_data req) of
             Inl (summary, detail) \<Rightarrow>
               resp\<lparr>Diagnostics := AddError (Diagnostics resp) summary detail\<rparr>
           | Inr config \<Rightarrow>
               (case Client config of
                  Inl err \<Rightarrow>
                    resp\<lparr>Diagnostics :=
                      AddError (Diagnostics resp) ''failed to initialize a new client'' err\<rparr>
                | Inr client \<Rightarrow>
                    resp\<lparr>DataSourceData := Some client, ResourceData := Some client\<rparr>)))"

section \<open>Notions used in the statements\<close>

text \<open>
  The five options that configure and Configure have assembled when they turn to the
  credentials: rate limit, retry policy, base URL, debug flag and user agent.
\<close>

definition sdkv2_options ::
  "constants \<Rightarrow> host \<Rightarrow> string \<Rightarrow> string \<Rightarrow> schema_ResourceData \<Rightarrow> cf_option list"
where
  "sdkv2_options K h version tfVersion d =
     [UsingRateLimit (sdkv2_rps K h d),
      UsingRetryPolicy (to_int (IntSize h) (sdkv2_retries K h d))
        (to_int (IntSize h) (sdkv2_minBackOff K h d))
        (to_int (IntSize h) (sdkv2_maxBackOff K h d)),
      BaseURL (''https://'' @ sdkv2_baseHostname K h d @ sdkv2_basePath K h d),
      Debug (IsDebugOrHigher h),
      UserAgent (UserAgentDefault K tfVersion (SDKVersionString h) version)]"

definition framework_options ::
  "constants \<Rightarrow> host \<Rightarrow> string \<Rightarrow> string \<Rightarrow> CloudflareProviderModel \<Rightarrow> cf_option list"
where
  "framework_options K h version tfVersion data =
     [UsingRateLimit (framework_rps K h data),
      UsingRetryPolicy (to_int (IntSize h) (framework_retries K h data))
        (to_int (IntSize h) (framework_minBackOff K h data))
        (to_int (IntSize h) (framework_maxBackOff K h data)),
      BaseURL (''https://'' @ framework_baseHostname K h data @ framework_basePath K h data),
      Debug (IsDebugOrHigher h),
      UserAgent (UserAgentDefault K tfVersion (SDKVersionString h) version)]"

text \<open>
  The configuration that configure and Configure hand to config.Client when no check has
  failed: the resolved credentials, the five options and, for a non-empty account id, the
  account option.
\<close>

definition sdkv2_client_config ::
  "constants \<Rightarrow> host \<Rightarrow> string \<Rightarrow> string \<Rightarrow> schema_ResourceData \<Rightarrow> Config"
where
  "sdkv2_client_config K h version tfVersion d =
     \<lparr>Email = (if sdkv2_apiKey K h d \<noteq> [] then sdkv2_email K h d else []),
      APIKey = sdkv2_apiKey K h d,
      APIUserServiceKey = sdkv2_apiUserServiceKey K h d,
      APIToken = sdkv2_apiToken K h d,
      Options = sdkv2_options K h version tfVersion d @
        (if sdkv2_accountID K h d \<noteq> [] then [UsingAccount (sdkv2_accountID K h d)] else [])\<rparr>"

definition framework_client_config ::
  "constants \<Rightarrow> host \<Rightarrow> string \<Rightarrow> string \<Rightarrow> CloudflareProviderModel \<Rightarrow> Config"
where
  "framework_client_config K h version tfVersion data =
     \<lparr>Email = (if framework_apiKey K h data \<noteq> [] then framework_email K h data else []),
      APIKey = framework_apiKey K h data,
      APIUserServiceKey = framework_apiUserServiceKey K h data,
      APIToken = framework_apiToken K h data,
      Options = framework_options K h version tfVersion data @
        (if framework_accountID K h data \<noteq> []
         then [UsingAccount (framework_accountID K h data)] else [])\<rparr>"

text \<open>
  The three-step precedence in the words of the spec: the explicit input when it is set,
  otherwise the value of the environment variable when present and non-empty, otherwise the
  built-in default. \<open>conv\<close> reads the text of the variable or of the default as a value of
  the field.
\<close>

definition three_step :: "(string \<Rightarrow> 'a) \<Rightarrow> 'a option \<Rightarrow> string option \<Rightarrow> string \<Rightarrow> 'a" where
  "three_step conv explicit env dflt =
     (case explicit of
        Some v \<Rightarrow> v
      | None \<Rightarrow>
          (case env of
             None \<Rightarrow> conv dflt
           | Some e \<Rightarrow> if e \<noteq> [] then conv e else conv dflt))"

text \<open>
  What counts as a set input. In the SDKv2 provider, and for api_hostname and api_base_path
  in the framework provider, an input is set when it holds a value other than the empty
  string or zero. For the other framework fields an input is set when it is not null.
\<close>

definition set_string :: "string option \<Rightarrow> string option" where
  "set_string a = (case a of None \<Rightarrow> None | Some v \<Rightarrow> if v \<noteq> [] then Some v else None)"

definition set_int :: "int option \<Rightarrow> int option" where
  "set_int a = (case a of None \<Rightarrow> None | Some v \<Rightarrow> if v \<noteq> 0 then Some v else None)"

definition non_empty_string :: "string tf_value \<Rightarrow> string option" where
  "non_empty_string v = (if ValueString v \<noteq> [] then Some (ValueString v) else None)"

definition non_null_string :: "string tf_value \<Rightarrow> string option" where
  "non_null_string v = (if IsNull v then None else Some (ValueString v))"

definition non_null_int :: "int tf_value \<Rightarrow> int option" where
  "non_null_int v = (if IsNull v then None else Some (ValueInt64 v))"

definition parsed :: "string \<Rightarrow> int" where
  "parsed s = fst (ParseInt s)"







section \<open>Concrete inputs\<close>

text \<open>
  An instance of the parameters and some inputs, for the evaluated examples. The theorems
  hold for every instance.
\<close>

definition example_constants :: constants where
  "example_constants =
     \<lparr>APIHostnameEnvVarKey = ''CLOUDFLARE_API_HOSTNAME'',
      APIHostnameDefault = ''api.cloudflare.com'',
      APIBasePathEnvVarKey = ''CLOUDFLARE_API_BASE_PATH'',
      APIBasePathDefault = ''/client/v4'',
      RPSEnvVarKey = ''CLOUDFLARE_RPS'',
      RPSDefault = ''4'',
      RetriesEnvVarKey = ''CLOUDFLARE_RETRIES'',
      RetriesDefault = ''4'',
      MinimumBackoffEnvVar = ''CLOUDFLARE_MIN_BACKOFF'',
      MinimumBackoffDefault = ''1'',
      MaximumBackoffEnvVarKey = ''CLOUDFLARE_MAX_BACKOFF'',
      MaximumBackoffDefault = ''30'',
      APITokenEnvVarKey = ''CLOUDFLARE_API_TOKEN'',
      APIKeyEnvVarKey = ''CLOUDFLARE_API_KEY'',
      EmailEnvVarKey = ''CLOUDFLARE_EMAIL'',
      APIUserServiceKeyEnvVarKey = ''CLOUDFLARE_API_USER_SERVICE_KEY'',
      AccountIDEnvVarKey = ''CLOUDFLARE_ACCOUNT_ID'',
      UserAgentDefault = (\<lambda>tf sdk v. ''terraform/'' @ tf @ '' terraform-plugin-sdk/'' @ sdk
                            @ '' terraform-provider-cloudflare/'' @ v)\<rparr>"

definition empty_host :: host where
  "empty_host =
     \<lparr>IntSize = 64, Environ = Map.empty, IsDebugOrHigher = False, SDKVersionString = ''2.26.1''\<rparr>"

definition no_input :: schema_ResourceData where
  "no_input =
     \<lparr>d_email = None, d_api_key = None, d_api_token = None, d_api_user_service_key = None,
      d_rps = None, d_retries = None, d_min_backoff = None, d_max_backoff = None,
      d_account_id = None, d_api_hostname = None, d_api_base_path = None\<rparr>"

definition null_model :: CloudflareProviderModel where
  "null_model =
     \<lparr>data_APIKey = Null, data_APIUserServiceKey = Null, data_Email = Null,
      data_MinBackOff = Null, data_RPS = Null, data_AccountID = Null, data_APIBasePath = Null,
      data_APIToken = Null, data_Retries = Null, data_MaxBackoff = Null,
      data_APIClientLogging = Null, data_APIHostname = Null\<rparr>"

definition request :: "CloudflareProviderModel \<Rightarrow> ConfigureRequest" where
  "request data = \<lparr>Config_Get_diags = [], Config_Get_data = data, TerraformVersion = ''1.5.0''\<rparr>"

definition empty_response :: "Config ConfigureResponse" where
  "empty_response = \<lparr>Diagnostics = [], DataSourceData = None, ResourceData = None\<rparr>"

definition env_host :: "string \<Rightarrow> string \<Rightarrow> host" where
  "env_host key val = empty_host\<lparr>Environ := [key \<mapsto> val]\<rparr>"

definition api_token_example :: string where
  "api_token_example = ''AAAAAAAAAAAAAAAAAAAAAAAAAAAAAAAAAAAAAAAA''"

definition api_key_example :: string where
  "api_key_example = ''fffffffffffffffffffffffffffffffffffff''"

definition two_credentials_input :: schema_ResourceData where
  "two_credentials_input =
     no_input\<lparr>d_api_token := Some api_token_example,
               d_api_user_service_key := Some ''v1.0-0123456789abcdef''\<rparr>"

definition token_input :: schema_ResourceData where
  "token_input = no_input\<lparr>d_api_token := Some api_token_example\<rparr>"

definition token_model :: CloudflareProviderModel where
  "token_model = null_model\<lparr>data_APIToken := Known api_token_example\<rparr>"

definition key_without_email_input :: schema_ResourceData where
  "key_without_email_input = no_input\<lparr>d_api_key := Some api_key_example\<rparr>"

definition key_without_email_model :: CloudflareProviderModel where
  "key_without_email_model = null_model\<lparr>data_APIKey := Known api_key_example\<rparr>"

definition example_user_agent :: string where
  "example_user_agent =
     ''terraform/1.5.0 terraform-plugin-sdk/2.26.1 terraform-provider-cloudflare/3.30.0''"

definition large_rps_input :: schema_ResourceData where
  "large_rps_input = no_input\<lparr>d_api_token := Some api_token_example, d_rps := Some 1000\<rparr>"

definition account_input :: schema_ResourceData where
  "account_input =
     no_input\<lparr>d_api_token := Some api_token_example, d_account_id := Some ''acct123''\<rparr>"

definition account_model :: CloudflareProviderModel where
  "account_model =
     null_model\<lparr>data_APIToken := Known api_token_example, data_AccountID := Known ''acct123''\<rparr>"

definition backoff_model :: CloudflareProviderModel where
  "backoff_model = null_model\<lparr>data_MinBackOff := Known 1, data_MaxBackoff := Known 30\<rparr>"

section \<open>Auxiliary facts\<close>

lemma Append_single: "Append diags [x] = (if x \<in> set diags then diags else diags @ [x])"
  by simp

lemma HasError_AddError: "HasError (AddError diags s t)"
  by (force simp: AddError_def HasError_def list_ex_iff)

lemma sublist_too_large_field: "sublist field (too_large field v)"
  by (simp add: too_large_def)

lemma sublist_too_large_value: "sublist (fmt_d v) (too_large field v)"
  unfolding too_large_def by (metis sublist_appendI append.assoc)

lemma configure_Inl:
  "sdkv2_config K h version tfv d = Inl diags \<Longrightarrow> configure K h Client version tfv d = Inl diags"
  by (simp add: configure_def)

lemma Configure_Inl:
  "\<not> HasError (Append (Diagnostics resp) (Config_Get_diags req)) \<Longrightarrow>
   framework_config K h version (TerraformVersion req) (Config_Get_data req) = Inl (s, t) \<Longrightarrow>
   Configure K h Client version req resp =
     resp\<lparr>Diagnostics := AddError (Append (Diagnostics resp) (Config_Get_diags req)) s t\<rparr>"
  by (simp add: Configure_def Let_def)

lemma sdkv2_config_retries:
  "int (IntSize h) < sdkv2_retries K h d \<Longrightarrow>
   sdkv2_config K h version tfv d = Inl [sdkv2_error (too_large ''retries'' (sdkv2_retries K h d))]"
  by (simp add: sdkv2_config_def Let_def)

lemma sdkv2_config_minBackOff:
  "\<not> int (IntSize h) < sdkv2_retries K h d \<Longrightarrow> int (IntSize h) < sdkv2_minBackOff K h d \<Longrightarrow>
   sdkv2_config K h version tfv d =
     Inl [sdkv2_error (too_large ''min_backoff'' (sdkv2_minBackOff K h d))]"
  by (simp add: sdkv2_config_def Let_def)

lemma sdkv2_config_maxBackOff:
  "\<not> int (IntSize h) < sdkv2_retries K h d \<Longrightarrow> \<not> int (IntSize h) < sdkv2_minBackOff K h d \<Longrightarrow>
   int (IntSize h) < sdkv2_maxBackOff K h d \<Longrightarrow>
   sdkv2_config K h version tfv d =
     Inl [sdkv2_error (too_large ''max_backoff'' (sdkv2_maxBackOff K h d))]"
  by (simp add: sdkv2_config_def Let_def)

lemma framework_config_retries:
  "int (IntSize h) < framework_retries K h data \<Longrightarrow>
   framework_config K h version tfv data =
     Inl (too_large ''retries'' (framework_retries K h data),
          too_large ''retries'' (framework_retries K h data))"
  by (simp add: framework_config_def Let_def)

lemma framework_config_minBackOff:
  "\<not> int (IntSize h) < framework_retries K h data \<Longrightarrow>
   int (IntSize h) < framework_minBackOff K h data \<Longrightarrow>
   framework_config K h version tfv data =
     Inl (too_large ''min_backoff'' (framework_minBackOff K h data),
          too_large ''min_backoff'' (framework_minBackOff K h data))"
  by (simp add: framework_config_def Let_def)

lemma framework_config_maxBackOff:
  "\<not> int (IntSize h) < framework_retries K h data \<Longrightarrow>
   \<not> int (IntSize h) < framework_minBackOff K h data \<Longrightarrow>
   int (IntSize h) < framework_maxBackOff K h data \<Longrightarrow>
   framework_config K h version tfv data =
     Inl (too_large ''max_backoff'' (framework_maxBackOff K h data),
          too_large ''max_backoff'' (framework_maxBackOff K h data))"
  by (simp add: framework_config_def Let_def)


section \<open>Numeric bounds\<close>

text \<open>
  C4: when the resolved retries, min_backoff or max_backoff is greater than strconv.IntSize,
  configuration fails with one diagnostic, for the first such field in this order; its message
  contains the name of the field and the decimal value. The result does not depend on
  \<open>Client\<close>: no client is constructed. In the framework provider the error is added to the
  response and the client slots keep their values.
\<close>

theorem bound_exceeded_fails:
  fixes Client :: "Config \<Rightarrow> string + 'c" and Client' :: "Config \<Rightarrow> string + 'e"
  shows
  "(int (IntSize h) < sdkv2_retries K h d \<longrightarrow>
      configure K h Client version tfv d =
        Inl [sdkv2_error (too_large ''retries'' (sdkv2_retries K h d))]) \<and>
   (\<not> int (IntSize h) < sdkv2_retries K h d \<and> int (IntSize h) < sdkv2_minBackOff K h d \<longrightarrow>
      configure K h Client version tfv d =
        Inl [sdkv2_error (too_large ''min_backoff'' (sdkv2_minBackOff K h d))]) \<and>
   (\<not> int (IntSize h) < sdkv2_retries K h d \<and> \<not> int (IntSize h) < sdkv2_minBackOff K h d \<and>
    int (IntSize h) < sdkv2_maxBackOff K h d \<longrightarrow>
      configure K h Client version tfv d =
        Inl [sdkv2_error (too_large ''max_backoff'' (sdkv2_maxBackOff K h d))]) \<and>
   (\<not> HasError (Append (Diagnostics resp) (Config_Get_diags req)) \<longrightarrow>
      (int (IntSize h) < framework_retries K h (Config_Get_data req) \<longrightarrow>
         Configure K h Client' version req resp =
           resp\<lparr>Diagnostics := AddError (Append (Diagnostics resp) (Config_Get_diags req))
             (too_large ''retries'' (framework_retries K h (Config_Get_data req)))
             (too_large ''retries'' (framework_retries K h (Config_Get_data req)))\<rparr>) \<and>
      (\<not> int (IntSize h) < framework_retries K h (Config_Get_data req) \<and>
       int (IntSize h) < framework_minBackOff K h (Config_Get_data req) \<longrightarrow>
         Configure K h Client' version req resp =
           resp\<lparr>Diagnostics := AddError (Append (Diagnostics resp) (Config_Get_diags req))
             (too_large ''min_backoff'' (framework_minBackOff K h (Config_Get_data req)))
             (too_large ''min_backoff'' (framework_minBackOff K h (Config_Get_data req)))\<rparr>) \<and>
      (\<not> int (IntSize h) < framework_retries K h (Config_Get_data req) \<and>
       \<not> int (IntSize h) < framework_minBackOff K h (Config_Get_data req) \<and>
       int (IntSize h) < framework_maxBackOff K h (Config_Get_data req) \<longrightarrow>
         Configure K h Client' version req resp =
           resp\<lparr>Diagnostics := AddError (Append (Diagnostics resp) (Config_Get_diags req))
             (too_large ''max_backoff'' (framework_maxBackOff K h (Config_Get_data req)))
             (too_large ''max_backoff'' (framework_maxBackOff K h (Config_Get_data req)))\<rparr>)) \<and>
   sublist field (too_large field v) \<and> sublist (fmt_d v) (too_large field v)"
  by (simp add: configure_Inl Configure_Inl sdkv2_config_retries sdkv2_config_minBackOff
      sdkv2_config_maxBackOff framework_config_retries framework_config_minBackOff
      framework_config_maxBackOff sublist_too_large_field sublist_too_large_value)

lemma fmt_d_100: "fmt_d 100 = ''100''"
  by (simp add: fmt_d_def fmt_nat.simps digit_char_def)

lemma IntSize_empty_host: "IntSize empty_host = 64"
  by (simp add: empty_host_def)

theorem bound_exceeded_fails_witness:
  "int (IntSize empty_host) < sdkv2_retries example_constants empty_host (no_input\<lparr>d_retries := Some 100\<rparr>) \<and>
   configure example_constants empty_host Inr ''3.30.0'' ''1.5.0'' (no_input\<lparr>d_retries := Some 100\<rparr>) =
     Inl [\<lparr>Severity = SeverityError,
           Summary = ''retries value of 100 is too large, try a smaller value.'',
           Detail = []\<rparr>] \<and>
   \<not> HasError (Append (Diagnostics empty_response)
        (Config_Get_diags (request (null_model\<lparr>data_MinBackOff := Known 1, data_MaxBackoff := Known 100\<rparr>)))) \<and>
   \<not> int (IntSize empty_host) < framework_retries example_constants empty_host
        (Config_Get_data (request (null_model\<lparr>data_MinBackOff := Known 1, data_MaxBackoff := Known 100\<rparr>))) \<and>
   int (IntSize empty_host) < framework_minBackOff example_constants empty_host
        (Config_Get_data (request (null_model\<lparr>data_MinBackOff := Known 1, data_MaxBackoff := Known 100\<rparr>))) \<and>
   Configure example_constants empty_host Inr ''3.30.0''
       (request (null_model\<lparr>data_MinBackOff := Known 1, data_MaxBackoff := Known 100\<rparr>)) empty_response =
     \<lparr>Diagnostics = [\<lparr>Severity = SeverityError,
           Summary = ''min_backoff value of 100 is too large, try a smaller value.'',
           Detail = ''min_backoff value of 100 is too large, try a smaller value.''\<rparr>],
      DataSourceData = None, ResourceData = None\<rparr>"
proof -
  let ?d = "no_input\<lparr>d_retries := Some 100\<rparr>"
  let ?req = "request (null_model\<lparr>data_MinBackOff := Known 1, data_MaxBackoff := Known 100\<rparr>)"
  have r: "sdkv2_retries example_constants empty_host ?d = 100"
    by (simp add: sdkv2_retries_def GetOk_int_def Get_int_def no_input_def)
  have e: "\<not> HasError (Append (Diagnostics empty_response) (Config_Get_diags ?req))"
    by (simp add: HasError_def empty_response_def request_def)
  have a: "Append (Diagnostics empty_response) (Config_Get_diags ?req) = []"
    by (simp add: empty_response_def request_def)
  have fr: "framework_retries example_constants empty_host (Config_Get_data ?req) = 4"
    by (simp add: framework_retries_def request_def null_model_def IsNull_def
        GetDefaultFromEnv_def empty_host_def example_constants_def ParseInt_def ParseUint_def maxUint64_def cutoff_def is_digit_def)
  have fm: "framework_minBackOff example_constants empty_host (Config_Get_data ?req) = 100"
    by (simp add: framework_minBackOff_def request_def null_model_def IsNull_def ValueInt64_def)
  have lt: "int (IntSize empty_host) < sdkv2_retries example_constants empty_host ?d"
    by (simp add: r IntSize_empty_host)
  have nr: "\<not> int (IntSize empty_host) <
      framework_retries example_constants empty_host (Config_Get_data ?req)"
    by (simp add: fr IntSize_empty_host)
  have lm: "int (IntSize empty_host) <
      framework_minBackOff example_constants empty_host (Config_Get_data ?req)"
    by (simp add: fm IntSize_empty_host)
  note T = bound_exceeded_fails [of empty_host example_constants ?d Inr "''3.30.0''" "''1.5.0''"
        empty_response ?req Inr]
  from T lt have c1: "configure example_constants empty_host Inr ''3.30.0'' ''1.5.0'' ?d =
      Inl [sdkv2_error (too_large ''retries'' (sdkv2_retries example_constants empty_host ?d))]"
    by blast
  from T e nr lm have c2: "Configure example_constants empty_host Inr ''3.30.0'' ?req empty_response =
      empty_response\<lparr>Diagnostics :=
        AddError (Append (Diagnostics empty_response) (Config_Get_diags ?req))
          (too_large ''min_backoff''
             (framework_minBackOff example_constants empty_host (Config_Get_data ?req)))
          (too_large ''min_backoff''
             (framework_minBackOff example_constants empty_host (Config_Get_data ?req)))\<rparr>"
    by blast
  have c1': "configure example_constants empty_host Inr ''3.30.0'' ''1.5.0'' ?d =
      Inl [\<lparr>Severity = SeverityError,
           Summary = ''retries value of 100 is too large, try a smaller value.'',
           Detail = []\<rparr>]"
    by (simp add: c1 r too_large_def fmt_d_100 sdkv2_error_def)
  have c2': "Configure example_constants empty_host Inr ''3.30.0'' ?req empty_response =
     \<lparr>Diagnostics = [\<lparr>Severity = SeverityError,
           Summary = ''min_backoff value of 100 is too large, try a smaller value.'',
           Detail = ''min_backoff value of 100 is too large, try a smaller value.''\<rparr>],
      DataSourceData = None, ResourceData = None\<rparr>"
    by (simp add: c2 a fm too_large_def fmt_d_100 AddError_def) (simp add: empty_response_def)
  from lt c1' e nr lm c2' show ?thesis by blast
qed













section \<open>Numbers from the environment\<close>



lemma Environ_env_host: "Environ (env_host key val) key = Some val"
  by (simp add: env_host_def)







section \<open>The backoff fields of the framework provider\<close>

text \<open>
  C10: in Configure of the framework provider both backoff branches test whether min_backoff
  is null and both read max_backoff. When min_backoff is not null, minBackOff and maxBackOff
  both are the value of max_backoff (0 when that is null), whatever the value of min_backoff
  and whatever the environment holds. When min_backoff is null, both come from the
  environment or the default, whatever max_backoff holds. These are the numbers that the retry
  policy of the configuration receives.
\<close>

theorem framework_backoff_branches:
  "(\<not> IsNull (data_MinBackOff data) \<longrightarrow>
      framework_minBackOff K h data = ValueInt64 (data_MaxBackoff data) \<and>
      framework_maxBackOff K h data = ValueInt64 (data_MaxBackoff data)) \<and>
   (IsNull (data_MaxBackoff data) \<longrightarrow> ValueInt64 (data_MaxBackoff data) = 0) \<and>
   (IsNull (data_MinBackOff data) \<longrightarrow>
      framework_minBackOff K h data =
        fst (ParseInt (GetDefaultFromEnv h (MinimumBackoffEnvVar K) (MinimumBackoffDefault K))) \<and>
      framework_maxBackOff K h data =
        fst (ParseInt (GetDefaultFromEnv h (MaximumBackoffEnvVarKey K) (MaximumBackoffDefault K)))) \<and>
   (\<not> IsNull (data_MinBackOff data) \<longrightarrow>
      framework_minBackOff K h' (data\<lparr>data_MinBackOff := Known m\<rparr>) =
        framework_minBackOff K h data \<and>
      framework_maxBackOff K h' (data\<lparr>data_MinBackOff := Known m\<rparr>) =
        framework_maxBackOff K h data) \<and>
   (IsNull (data_MinBackOff data) \<longrightarrow>
      framework_minBackOff K h (data\<lparr>data_MaxBackoff := x\<rparr>) = framework_minBackOff K h data \<and>
      framework_maxBackOff K h (data\<lparr>data_MaxBackoff := x\<rparr>) = framework_maxBackOff K h data) \<and>
   (\<forall>c. framework_config K h version tfv data = Inr c \<longrightarrow>
      Options c ! 1 =
        UsingRetryPolicy (to_int (IntSize h) (framework_retries K h data))
          (to_int (IntSize h) (framework_minBackOff K h data))
          (to_int (IntSize h) (framework_maxBackOff K h data)))"
  by (auto simp: framework_minBackOff_def framework_maxBackOff_def IsNull_def ValueInt64_def
      framework_config_def Let_def split: if_splits tf_value.splits)


theorem framework_backoff_branches_witness:
  "\<not> IsNull (data_MinBackOff (null_model\<lparr>data_MinBackOff := Known 1, data_MaxBackoff := Known 30\<rparr>)) \<and>
   framework_minBackOff example_constants empty_host
     (null_model\<lparr>data_MinBackOff := Known 1, data_MaxBackoff := Known 30\<rparr>) = 30 \<and>
   framework_maxBackOff example_constants empty_host
     (null_model\<lparr>data_MinBackOff := Known 1, data_MaxBackoff := Known 30\<rparr>) = 30 \<and>
   \<not> IsNull (data_MinBackOff (null_model\<lparr>data_MinBackOff := Known 5\<rparr>)) \<and>
   IsNull (data_MaxBackoff (null_model\<lparr>data_MinBackOff := Known 5\<rparr>)) \<and>
   framework_minBackOff example_constants empty_host (null_model\<lparr>data_MinBackOff := Known 5\<rparr>) = 0 \<and>
   IsNull (data_MinBackOff (null_model\<lparr>data_MaxBackoff := Known 60\<rparr>)) \<and>
   framework_maxBackOff example_constants empty_host (null_model\<lparr>data_MaxBackoff := Known 60\<rparr>) = 30"
proof -
  let ?a = "null_model\<lparr>data_MinBackOff := Known 1, data_MaxBackoff := Known 30\<rparr>"
  let ?b = "null_model\<lparr>data_MinBackOff := Known 5\<rparr>"
  let ?c = "null_model\<lparr>data_MaxBackoff := Known 60\<rparr>"
  have na: "\<not> IsNull (data_MinBackOff ?a)" and nb: "\<not> IsNull (data_MinBackOff ?b)"
    and nb': "IsNull (data_MaxBackoff ?b)" and nc: "IsNull (data_MinBackOff ?c)"
    by (simp_all add: IsNull_def null_model_def)
  have va: "ValueInt64 (data_MaxBackoff ?a) = 30"
    by (simp add: ValueInt64_def)
  have dflt: "fst (ParseInt (GetDefaultFromEnv empty_host (MaximumBackoffEnvVarKey example_constants)
      (MaximumBackoffDefault example_constants))) = 30"
    by (simp add: GetDefaultFromEnv_def empty_host_def example_constants_def ParseInt_def ParseUint_def maxUint64_def
        cutoff_def is_digit_def)
  from framework_backoff_branches [of ?a example_constants empty_host] na va
  have a: "framework_minBackOff example_constants empty_host ?a = 30"
    "framework_maxBackOff example_constants empty_host ?a = 30"
    by simp_all
  from framework_backoff_branches [of ?b example_constants empty_host] nb nb'
  have b: "framework_minBackOff example_constants empty_host ?b = 0"
    by simp
  from framework_backoff_branches [of ?c example_constants empty_host] nc dflt
  have c: "framework_maxBackOff example_constants empty_host ?c = 30"
    by simp
  from na a nb nb' b nc c show ?thesis by simp
qed

lemmas sdkv2_field_defs =
  sdkv2_baseHostname_def sdkv2_basePath_def sdkv2_rps_def sdkv2_retries_def
  sdkv2_minBackOff_def sdkv2_maxBackOff_def sdkv2_apiToken_def sdkv2_apiKey_def
  sdkv2_email_def sdkv2_apiUserServiceKey_def sdkv2_accountID_def

lemmas framework_field_defs =
  framework_baseHostname_def framework_basePath_def framework_rps_def framework_retries_def
  framework_minBackOff_def framework_maxBackOff_def framework_apiToken_def framework_apiKey_def
  framework_email_def framework_apiUserServiceKey_def framework_accountID_def

lemma sdkv2_config_Inr:
  assumes "sdkv2_config K h version tfv d = Inr c"
  shows "c = \<lparr>Email = (if sdkv2_apiKey K h d \<noteq> [] then sdkv2_email K h d else []),
              APIKey = sdkv2_apiKey K h d,
              APIUserServiceKey = sdkv2_apiUserServiceKey K h d,
              APIToken = sdkv2_apiToken K h d,
              Options = sdkv2_options K h version tfv d @
                (if sdkv2_accountID K h d \<noteq> [] then [UsingAccount (sdkv2_accountID K h d)]
                 else [])\<rparr>"
  using assms by (auto simp: sdkv2_config_def sdkv2_options_def Let_def split: if_splits)

lemma sdkv2_config_isl:
  "isl (sdkv2_config K h version tfv d) \<longleftrightarrow>
     int (IntSize h) < sdkv2_retries K h d \<or> int (IntSize h) < sdkv2_minBackOff K h d \<or>
     int (IntSize h) < sdkv2_maxBackOff K h d \<or>
     (sdkv2_apiKey K h d \<noteq> [] \<and> sdkv2_email K h d = []) \<or>
     (sdkv2_apiKey K h d = [] \<and> sdkv2_apiToken K h d = [] \<and> sdkv2_apiUserServiceKey K h d = [])"
  by (auto simp: sdkv2_config_def Let_def split: if_splits)

lemma framework_config_Inr:
  assumes "framework_config K h version tfv data = Inr c"
  shows "c = \<lparr>Email = (if framework_apiKey K h data \<noteq> [] then framework_email K h data else []),
              APIKey = framework_apiKey K h data,
              APIUserServiceKey = framework_apiUserServiceKey K h data,
              APIToken = framework_apiToken K h data,
              Options = framework_options K h version tfv data @
                (if framework_accountID K h data \<noteq> []
                 then [UsingAccount (framework_accountID K h data)] else [])\<rparr>"
  using assms by (auto simp: framework_config_def framework_options_def Let_def split: if_splits)

lemma framework_config_isl:
  "isl (framework_config K h version tfv data) \<longleftrightarrow>
     int (IntSize h) < framework_retries K h data \<or> int (IntSize h) < framework_minBackOff K h data \<or>
     int (IntSize h) < framework_maxBackOff K h data \<or>
     (framework_apiKey K h data \<noteq> [] \<and> framework_email K h data = []) \<or>
     (framework_apiKey K h data = [] \<and> framework_apiToken K h data = [] \<and>
      framework_apiUserServiceKey K h data = [])"
  by (auto simp: framework_config_def Let_def split: if_splits)

lemma sdkv2_config_no_credentials:
  "\<not> int (IntSize h) < sdkv2_retries K h d \<Longrightarrow> \<not> int (IntSize h) < sdkv2_minBackOff K h d \<Longrightarrow>
   \<not> int (IntSize h) < sdkv2_maxBackOff K h d \<Longrightarrow>
   sdkv2_apiKey K h d = [] \<Longrightarrow> sdkv2_apiToken K h d = [] \<Longrightarrow>
   sdkv2_apiUserServiceKey K h d = [] \<Longrightarrow>
   sdkv2_config K h version tfv d = Inl [sdkv2_error must_provide_one_of]"
  by (simp add: sdkv2_config_def Let_def)

lemma sdkv2_config_no_email:
  "\<not> int (IntSize h) < sdkv2_retries K h d \<Longrightarrow> \<not> int (IntSize h) < sdkv2_minBackOff K h d \<Longrightarrow>
   \<not> int (IntSize h) < sdkv2_maxBackOff K h d \<Longrightarrow>
   sdkv2_apiKey K h d \<noteq> [] \<Longrightarrow> sdkv2_email K h d = [] \<Longrightarrow>
   sdkv2_config K h version tfv d = Inl [sdkv2_error not_set_correctly]"
  by (simp add: sdkv2_config_def Let_def)

lemma sdkv2_config_Inl_single:
  "sdkv2_config K h version tfv d = Inl diags \<Longrightarrow> \<exists>s. diags = [sdkv2_error s]"
  by (auto simp: sdkv2_config_def Let_def split: if_splits)

lemma framework_config_no_credentials:
  "\<not> int (IntSize h) < framework_retries K h data \<Longrightarrow>
   \<not> int (IntSize h) < framework_minBackOff K h data \<Longrightarrow>
   \<not> int (IntSize h) < framework_maxBackOff K h data \<Longrightarrow>
   framework_apiKey K h data = [] \<Longrightarrow> framework_apiToken K h data = [] \<Longrightarrow>
   framework_apiUserServiceKey K h data = [] \<Longrightarrow>
   framework_config K h version tfv data = Inl (must_provide_one_of, must_provide_one_of)"
  by (simp add: framework_config_def Let_def)

lemma framework_config_no_email:
  "\<not> int (IntSize h) < framework_retries K h data \<Longrightarrow>
   \<not> int (IntSize h) < framework_minBackOff K h data \<Longrightarrow>
   \<not> int (IntSize h) < framework_maxBackOff K h data \<Longrightarrow>
   framework_apiKey K h data \<noteq> [] \<Longrightarrow> framework_email K h data = [] \<Longrightarrow>
   framework_config K h version tfv data = Inl (not_set_correctly, required_with)"
  by (simp add: framework_config_def Let_def)

lemma sublist_keys:
  "sublist (fmt_q APIKeySchemaKey) must_provide_one_of"
  "sublist (fmt_q APITokenSchemaKey) must_provide_one_of"
  "sublist (fmt_q APIUserServiceKeySchemaKey) must_provide_one_of"
  "sublist (fmt_q EmailSchemaKey) not_set_correctly"
  "sublist (fmt_q EmailSchemaKey) required_with"
  "sublist (fmt_q APIKeySchemaKey) required_with"
  unfolding must_provide_one_of_def not_set_correctly_def required_with_def
  by (metis sublist_appendI sublist_append_leftI sublist_append_rightI append.assoc)+


section \<open>Credentials\<close>

text \<open>
  C1: when api_key, api_token and api_user_service_key all resolve to the empty string,
  configuration fails with a diagnostic and returns no client, whatever \<open>Client\<close> is; when
  the three numeric checks pass, the diagnostic is the one that lists the three field names.
  In the framework provider the error is added to the response and the client slots keep
  their values.
\<close>

theorem no_credentials_fails:
  fixes Client :: "Config \<Rightarrow> string + 'c" and Client' :: "Config \<Rightarrow> string + 'e"
  shows
  "(sdkv2_apiKey K h d = [] \<and> sdkv2_apiToken K h d = [] \<and> sdkv2_apiUserServiceKey K h d = [] \<longrightarrow>
      (\<exists>s. configure K h Client version tfv d = Inl [sdkv2_error s]) \<and>
      (\<not> int (IntSize h) < sdkv2_retries K h d \<and> \<not> int (IntSize h) < sdkv2_minBackOff K h d \<and>
       \<not> int (IntSize h) < sdkv2_maxBackOff K h d \<longrightarrow>
         configure K h Client version tfv d = Inl [sdkv2_error must_provide_one_of])) \<and>
   (\<not> HasError (Append (Diagnostics resp) (Config_Get_diags req)) \<and>
    framework_apiKey K h (Config_Get_data req) = [] \<and>
    framework_apiToken K h (Config_Get_data req) = [] \<and>
    framework_apiUserServiceKey K h (Config_Get_data req) = [] \<longrightarrow>
      (\<exists>s t. Configure K h Client' version req resp =
         resp\<lparr>Diagnostics := AddError (Append (Diagnostics resp) (Config_Get_diags req)) s t\<rparr>) \<and>
      (\<not> int (IntSize h) < framework_retries K h (Config_Get_data req) \<and>
       \<not> int (IntSize h) < framework_minBackOff K h (Config_Get_data req) \<and>
       \<not> int (IntSize h) < framework_maxBackOff K h (Config_Get_data req) \<longrightarrow>
         Configure K h Client' version req resp =
           resp\<lparr>Diagnostics := AddError (Append (Diagnostics resp) (Config_Get_diags req))
             must_provide_one_of must_provide_one_of\<rparr>)) \<and>
   sublist (fmt_q APIKeySchemaKey) must_provide_one_of \<and>
   sublist (fmt_q APITokenSchemaKey) must_provide_one_of \<and>
   sublist (fmt_q APIUserServiceKeySchemaKey) must_provide_one_of"
proof -
  have sdk: "\<exists>s. configure K h Client version tfv d = Inl [sdkv2_error s]"
    if "sdkv2_apiKey K h d = []" "sdkv2_apiToken K h d = []" "sdkv2_apiUserServiceKey K h d = []"
  proof -
    from that have "isl (sdkv2_config K h version tfv d)"
      by (simp add: sdkv2_config_isl)
    then obtain diags where "sdkv2_config K h version tfv d = Inl diags"
      by (auto simp: isl_def)
    then show ?thesis
      using sdkv2_config_Inl_single configure_Inl by metis
  qed
  have fw: "\<exists>s t. Configure K h Client' version req resp =
      resp\<lparr>Diagnostics := AddError (Append (Diagnostics resp) (Config_Get_diags req)) s t\<rparr>"
    if "\<not> HasError (Append (Diagnostics resp) (Config_Get_diags req))"
      "framework_apiKey K h (Config_Get_data req) = []"
      "framework_apiToken K h (Config_Get_data req) = []"
      "framework_apiUserServiceKey K h (Config_Get_data req) = []"
  proof -
    from that have "isl (framework_config K h version (TerraformVersion req) (Config_Get_data req))"
      by (simp add: framework_config_isl)
    then obtain s t where
      "framework_config K h version (TerraformVersion req) (Config_Get_data req) = Inl (s, t)"
      by (auto simp: isl_def)
    with that(1) show ?thesis
      using Configure_Inl by blast
  qed
  show ?thesis
    using sdk fw
    by (simp add: sublist_keys configure_Inl Configure_Inl sdkv2_config_no_credentials
        framework_config_no_credentials)
qed


lemmas example_defs =
  example_constants_def empty_host_def no_input_def null_model_def request_def
  empty_response_def two_credentials_input_def token_input_def token_model_def
  key_without_email_input_def key_without_email_model_def api_token_example_def
  large_rps_input_def account_input_def account_model_def
  api_key_example_def example_user_agent_def env_host_def

lemmas library_defs =
  Get_string_def Get_int_def GetOk_string_def GetOk_int_def IsNull_def ValueString_def
  ValueInt64_def GetDefaultFromEnv_def ParseInt_def ParseUint_def maxUint64_def cutoff_def is_digit_def to_int_def

theorem two_credentials_counterexample:
  "sdkv2_apiToken example_constants empty_host two_credentials_input \<noteq> [] \<and>
   sdkv2_apiUserServiceKey example_constants empty_host two_credentials_input \<noteq> [] \<and>
   configure example_constants empty_host Inr ''3.30.0'' ''1.5.0'' two_credentials_input =
     Inr \<lparr>Email = [], APIKey = [], APIUserServiceKey = ''v1.0-0123456789abcdef'',
          APIToken = api_token_example,
          Options = [UsingRateLimit 4, UsingRetryPolicy 4 1 30,
                     BaseURL ''https://api.cloudflare.com/client/v4'', Debug False,
                     UserAgent example_user_agent]\<rparr>"
  by (simp add: configure_def sdkv2_config_def sdkv2_field_defs library_defs example_defs Let_def)


theorem no_credentials_fails_witness:
  "sdkv2_apiKey example_constants empty_host no_input = [] \<and>
   sdkv2_apiToken example_constants empty_host no_input = [] \<and>
   sdkv2_apiUserServiceKey example_constants empty_host no_input = [] \<and>
   \<not> int (IntSize empty_host) < sdkv2_retries example_constants empty_host no_input \<and>
   \<not> int (IntSize empty_host) < sdkv2_minBackOff example_constants empty_host no_input \<and>
   \<not> int (IntSize empty_host) < sdkv2_maxBackOff example_constants empty_host no_input \<and>
   configure example_constants empty_host Inr ''3.30.0'' ''1.5.0'' no_input =
     Inl [sdkv2_error must_provide_one_of] \<and>
   \<not> HasError (Append (Diagnostics empty_response) (Config_Get_diags (request null_model))) \<and>
   Configure example_constants empty_host Inr ''3.30.0'' (request null_model) empty_response =
     \<lparr>Diagnostics =
        [\<lparr>Severity = SeverityError, Summary = must_provide_one_of,
          Detail = must_provide_one_of\<rparr>],
      DataSourceData = None, ResourceData = None\<rparr>"
proof -
  have a: "sdkv2_apiKey example_constants empty_host no_input = []"
    "sdkv2_apiToken example_constants empty_host no_input = []"
    "sdkv2_apiUserServiceKey example_constants empty_host no_input = []"
    "\<not> int (IntSize empty_host) < sdkv2_retries example_constants empty_host no_input"
    "\<not> int (IntSize empty_host) < sdkv2_minBackOff example_constants empty_host no_input"
    "\<not> int (IntSize empty_host) < sdkv2_maxBackOff example_constants empty_host no_input"
    by (simp_all add: sdkv2_field_defs library_defs example_defs)
  have b: "\<not> HasError (Append (Diagnostics empty_response) (Config_Get_diags (request null_model)))"
    "framework_apiKey example_constants empty_host (Config_Get_data (request null_model)) = []"
    "framework_apiToken example_constants empty_host (Config_Get_data (request null_model)) = []"
    "framework_apiUserServiceKey example_constants empty_host
       (Config_Get_data (request null_model)) = []"
    "\<not> int (IntSize empty_host) <
       framework_retries example_constants empty_host (Config_Get_data (request null_model))"
    "\<not> int (IntSize empty_host) <
       framework_minBackOff example_constants empty_host (Config_Get_data (request null_model))"
    "\<not> int (IntSize empty_host) <
       framework_maxBackOff example_constants empty_host (Config_Get_data (request null_model))"
    by (simp_all add: framework_field_defs library_defs example_defs HasError_def)
  note T = no_credentials_fails [of example_constants empty_host no_input Inr "''3.30.0''"
      "''1.5.0''" empty_response "request null_model" Inr]
  from T a have c1: "configure example_constants empty_host Inr ''3.30.0'' ''1.5.0'' no_input =
      Inl [sdkv2_error must_provide_one_of]"
    by blast
  from T b have "Configure example_constants empty_host Inr ''3.30.0'' (request null_model)
      empty_response =
        empty_response\<lparr>Diagnostics :=
          AddError (Append (Diagnostics empty_response) (Config_Get_diags (request null_model)))
            must_provide_one_of must_provide_one_of\<rparr>"
    by blast
  then have c2: "Configure example_constants empty_host Inr ''3.30.0'' (request null_model)
      empty_response =
     \<lparr>Diagnostics =
        [\<lparr>Severity = SeverityError, Summary = must_provide_one_of,
          Detail = must_provide_one_of\<rparr>],
      DataSourceData = None, ResourceData = None\<rparr>"
    by (simp add: AddError_def empty_response_def request_def)
  from a b(1) c1 c2 show ?thesis by blast
qed

text \<open>
  C3: when api_key resolves to a non-empty value and email to the empty string,
  configuration fails with a diagnostic and returns no client, whatever \<open>Client\<close> is. When
  the three numeric checks pass, the diagnostic names the email field; in the framework
  provider its detail names the api_key field as well. The SDKv2 diagnostic has a summary
  only.
\<close>

theorem api_key_requires_email:
  fixes Client :: "Config \<Rightarrow> string + 'c" and Client' :: "Config \<Rightarrow> string + 'e"
  shows
  "(sdkv2_apiKey K h d \<noteq> [] \<and> sdkv2_email K h d = [] \<longrightarrow>
      (\<exists>s. configure K h Client version tfv d = Inl [sdkv2_error s]) \<and>
      (\<not> int (IntSize h) < sdkv2_retries K h d \<and> \<not> int (IntSize h) < sdkv2_minBackOff K h d \<and>
       \<not> int (IntSize h) < sdkv2_maxBackOff K h d \<longrightarrow>
         configure K h Client version tfv d = Inl [sdkv2_error not_set_correctly])) \<and>
   (\<not> HasError (Append (Diagnostics resp) (Config_Get_diags req)) \<and>
    framework_apiKey K h (Config_Get_data req) \<noteq> [] \<and>
    framework_email K h (Config_Get_data req) = [] \<longrightarrow>
      (\<exists>s t. Configure K h Client' version req resp =
         resp\<lparr>Diagnostics := AddError (Append (Diagnostics resp) (Config_Get_diags req)) s t\<rparr>) \<and>
      (\<not> int (IntSize h) < framework_retries K h (Config_Get_data req) \<and>
       \<not> int (IntSize h) < framework_minBackOff K h (Config_Get_data req) \<and>
       \<not> int (IntSize h) < framework_maxBackOff K h (Config_Get_data req) \<longrightarrow>
         Configure K h Client' version req resp =
           resp\<lparr>Diagnostics := AddError (Append (Diagnostics resp) (Config_Get_diags req))
             not_set_correctly required_with\<rparr>)) \<and>
   sublist (fmt_q EmailSchemaKey) not_set_correctly \<and>
   sublist (fmt_q EmailSchemaKey) required_with \<and>
   sublist (fmt_q APIKeySchemaKey) required_with"
proof -
  have sdk: "\<exists>s. configure K h Client version tfv d = Inl [sdkv2_error s]"
    if "sdkv2_apiKey K h d \<noteq> []" "sdkv2_email K h d = []"
  proof -
    from that have "isl (sdkv2_config K h version tfv d)"
      by (simp add: sdkv2_config_isl)
    then obtain diags where "sdkv2_config K h version tfv d = Inl diags"
      by (auto simp: isl_def)
    then show ?thesis
      using sdkv2_config_Inl_single configure_Inl by metis
  qed
  have fw: "\<exists>s t. Configure K h Client' version req resp =
      resp\<lparr>Diagnostics := AddError (Append (Diagnostics resp) (Config_Get_diags req)) s t\<rparr>"
    if "\<not> HasError (Append (Diagnostics resp) (Config_Get_diags req))"
      "framework_apiKey K h (Config_Get_data req) \<noteq> []"
      "framework_email K h (Config_Get_data req) = []"
  proof -
    from that have "isl (framework_config K h version (TerraformVersion req) (Config_Get_data req))"
      by (simp add: framework_config_isl)
    then obtain s t where
      "framework_config K h version (TerraformVersion req) (Config_Get_data req) = Inl (s, t)"
      by (auto simp: isl_def)
    with that(1) show ?thesis
      using Configure_Inl by blast
  qed
  show ?thesis
    using sdk fw
    by (simp add: sublist_keys configure_Inl Configure_Inl sdkv2_config_no_email
        framework_config_no_email)
qed

theorem api_key_requires_email_witness:
  "sdkv2_apiKey example_constants empty_host key_without_email_input \<noteq> [] \<and>
   sdkv2_email example_constants empty_host key_without_email_input = [] \<and>
   configure example_constants empty_host Inr ''3.30.0'' ''1.5.0'' key_without_email_input =
     Inl [sdkv2_error not_set_correctly] \<and>
   \<not> HasError (Append (Diagnostics empty_response)
        (Config_Get_diags (request key_without_email_model))) \<and>
   framework_apiKey example_constants empty_host
     (Config_Get_data (request key_without_email_model)) \<noteq> [] \<and>
   framework_email example_constants empty_host
     (Config_Get_data (request key_without_email_model)) = [] \<and>
   Configure example_constants empty_host Inr ''3.30.0'' (request key_without_email_model)
       empty_response =
     \<lparr>Diagnostics =
        [\<lparr>Severity = SeverityError, Summary = not_set_correctly, Detail = required_with\<rparr>],
      DataSourceData = None, ResourceData = None\<rparr>"
proof -
  let ?d = key_without_email_input
  let ?req = "request key_without_email_model"
  have a: "sdkv2_apiKey example_constants empty_host ?d \<noteq> []"
    "sdkv2_email example_constants empty_host ?d = []"
    "\<not> int (IntSize empty_host) < sdkv2_retries example_constants empty_host ?d"
    "\<not> int (IntSize empty_host) < sdkv2_minBackOff example_constants empty_host ?d"
    "\<not> int (IntSize empty_host) < sdkv2_maxBackOff example_constants empty_host ?d"
    by (simp_all add: sdkv2_field_defs library_defs example_defs)
  have b: "\<not> HasError (Append (Diagnostics empty_response) (Config_Get_diags ?req))"
    "framework_apiKey example_constants empty_host (Config_Get_data ?req) \<noteq> []"
    "framework_email example_constants empty_host (Config_Get_data ?req) = []"
    "\<not> int (IntSize empty_host) <
       framework_retries example_constants empty_host (Config_Get_data ?req)"
    "\<not> int (IntSize empty_host) <
       framework_minBackOff example_constants empty_host (Config_Get_data ?req)"
    "\<not> int (IntSize empty_host) <
       framework_maxBackOff example_constants empty_host (Config_Get_data ?req)"
    by (simp_all add: framework_field_defs library_defs example_defs HasError_def)
  note T = api_key_requires_email [of example_constants empty_host ?d Inr "''3.30.0''"
      "''1.5.0''" empty_response ?req Inr]
  from T a have c1: "configure example_constants empty_host Inr ''3.30.0'' ''1.5.0'' ?d =
      Inl [sdkv2_error not_set_correctly]"
    by blast
  from T b have "Configure example_constants empty_host Inr ''3.30.0'' ?req empty_response =
        empty_response\<lparr>Diagnostics :=
          AddError (Append (Diagnostics empty_response) (Config_Get_diags ?req))
            not_set_correctly required_with\<rparr>"
    by blast
  then have c2: "Configure example_constants empty_host Inr ''3.30.0'' ?req empty_response =
     \<lparr>Diagnostics =
        [\<lparr>Severity = SeverityError, Summary = not_set_correctly, Detail = required_with\<rparr>],
      DataSourceData = None, ResourceData = None\<rparr>"
    by (simp add: AddError_def empty_response_def request_def)
  from a(1,2) b(1,2,3) c1 c2 show ?thesis by blast
qed

theorem email_diagnostic_counterexample:
  "sdkv2_apiKey example_constants empty_host key_without_email_input \<noteq> [] \<and>
   sdkv2_email example_constants empty_host key_without_email_input = [] \<and>
   configure example_constants empty_host Inr ''3.30.0'' ''1.5.0'' key_without_email_input =
     Inl [sdkv2_error not_set_correctly] \<and>
   \<not> sublist APIKeySchemaKey (Summary (sdkv2_error not_set_correctly)) \<and>
   \<not> sublist APIKeySchemaKey (Detail (sdkv2_error not_set_correctly))"
proof -
  have "\<not> sublist APIKeySchemaKey (Summary (sdkv2_error not_set_correctly))"
    unfolding sdkv2_error_def not_set_correctly_def APIKeySchemaKey_def EmailSchemaKey_def
      fmt_q_def
    by (simp add: sublist_Cons_right)
  moreover have "\<not> sublist APIKeySchemaKey (Detail (sdkv2_error not_set_correctly))"
    by (simp add: sdkv2_error_def APIKeySchemaKey_def)
  moreover have
    "configure example_constants empty_host Inr ''3.30.0'' ''1.5.0'' key_without_email_input =
       Inl [sdkv2_error not_set_correctly]"
    by (simp add: configure_def sdkv2_config_def sdkv2_field_defs library_defs example_defs
        Let_def)
  moreover have "sdkv2_apiKey example_constants empty_host key_without_email_input \<noteq> []"
    "sdkv2_email example_constants empty_host key_without_email_input = []"
    by (simp_all add: sdkv2_field_defs library_defs example_defs)
  ultimately show ?thesis by blast
qed


section \<open>The rate limit\<close>

text \<open>
  C5: configuration places no bound on rps; only retries, min_backoff and max_backoff are
  compared with strconv.IntSize. An explicit rps other than 0 (in the framework provider any
  known rps) is the resolved value however large it is, whether configuration fails does not
  depend on the explicit rps, and a configuration that reaches config.Client carries the
  resolved rps in its rate limit option.
\<close>

theorem rps_not_bounded:
  "(r \<noteq> 0 \<longrightarrow> sdkv2_rps K h (d\<lparr>d_rps := Some r\<rparr>) = r) \<and>
   isl (sdkv2_config K h version tfv (d\<lparr>d_rps := x\<rparr>)) = isl (sdkv2_config K h version tfv d) \<and>
   (\<forall>c. sdkv2_config K h version tfv d = Inr c \<longrightarrow>
      hd (Options c) = UsingRateLimit (sdkv2_rps K h d)) \<and>
   framework_rps K h (data\<lparr>data_RPS := Known r\<rparr>) = r \<and>
   isl (framework_config K h version tfv (data\<lparr>data_RPS := y\<rparr>)) =
     isl (framework_config K h version tfv data) \<and>
   (\<forall>c. framework_config K h version tfv data = Inr c \<longrightarrow>
      hd (Options c) = UsingRateLimit (framework_rps K h data))"
proof -
  have "\<And>c. sdkv2_config K h version tfv d = Inr c \<Longrightarrow>
      hd (Options c) = UsingRateLimit (sdkv2_rps K h d)"
    by (drule sdkv2_config_Inr) (simp add: sdkv2_options_def)
  moreover have "\<And>c. framework_config K h version tfv data = Inr c \<Longrightarrow>
      hd (Options c) = UsingRateLimit (framework_rps K h data)"
    by (drule framework_config_Inr) (simp add: framework_options_def)
  moreover have "isl (sdkv2_config K h version tfv (d\<lparr>d_rps := x\<rparr>)) =
      isl (sdkv2_config K h version tfv d)"
    unfolding sdkv2_config_isl by (simp add: sdkv2_field_defs)
  moreover have "isl (framework_config K h version tfv (data\<lparr>data_RPS := y\<rparr>)) =
      isl (framework_config K h version tfv data)"
    unfolding framework_config_isl by (simp add: framework_field_defs)
  moreover have "r \<noteq> 0 \<longrightarrow> sdkv2_rps K h (d\<lparr>d_rps := Some r\<rparr>) = r"
    by (simp add: sdkv2_rps_def GetOk_int_def Get_int_def)
  moreover have "framework_rps K h (data\<lparr>data_RPS := Known r\<rparr>) = r"
    by (simp add: framework_rps_def IsNull_def ValueInt64_def)
  ultimately show ?thesis by blast
qed

theorem rps_not_bounded_witness:
  "(1000::int) \<noteq> 0 \<and>
   sdkv2_rps example_constants empty_host (token_input\<lparr>d_rps := Some 1000\<rparr>) = 1000 \<and>
   sdkv2_config example_constants empty_host ''3.30.0'' ''1.5.0''
       (token_input\<lparr>d_rps := Some 1000\<rparr>) =
     Inr \<lparr>Email = [], APIKey = [], APIUserServiceKey = [], APIToken = api_token_example,
          Options = [UsingRateLimit 1000, UsingRetryPolicy 4 1 30,
                     BaseURL ''https://api.cloudflare.com/client/v4'', Debug False,
                     UserAgent example_user_agent]\<rparr> \<and>
   hd (Options \<lparr>Email = [], APIKey = [], APIUserServiceKey = [], APIToken = api_token_example,
          Options = [UsingRateLimit 1000, UsingRetryPolicy 4 1 30,
                     BaseURL ''https://api.cloudflare.com/client/v4'', Debug False,
                     UserAgent example_user_agent]\<rparr>) =
     UsingRateLimit (sdkv2_rps example_constants empty_host (token_input\<lparr>d_rps := Some 1000\<rparr>))"
proof -
  let ?d = "token_input\<lparr>d_rps := Some 1000\<rparr>"
  let ?c = "\<lparr>Email = [], APIKey = [], APIUserServiceKey = [], APIToken = api_token_example,
          Options = [UsingRateLimit 1000, UsingRetryPolicy 4 1 30,
                     BaseURL ''https://api.cloudflare.com/client/v4'', Debug False,
                     UserAgent example_user_agent]\<rparr>"
  note T = rps_not_bounded [of 1000 example_constants empty_host token_input "''3.30.0''"
      "''1.5.0''" "Some 1000"]
  have e: "sdkv2_config example_constants empty_host ''3.30.0'' ''1.5.0'' ?d = Inr ?c"
    by (simp add: sdkv2_config_def sdkv2_field_defs library_defs example_defs Let_def)
  from T have r: "sdkv2_rps example_constants empty_host ?d = 1000"
    by simp
  from rps_not_bounded [of 1000 example_constants empty_host ?d "''3.30.0''" "''1.5.0''"] e
  have "hd (Options ?c) = UsingRateLimit (sdkv2_rps example_constants empty_host ?d)"
    by blast
  with r e show ?thesis by simp
qed

theorem rps_counterexample:
  "int (IntSize empty_host) < sdkv2_rps example_constants empty_host large_rps_input \<and>
   configure example_constants empty_host Inr ''3.30.0'' ''1.5.0'' large_rps_input =
     Inr \<lparr>Email = [], APIKey = [], APIUserServiceKey = [], APIToken = api_token_example,
          Options = [UsingRateLimit 1000, UsingRetryPolicy 4 1 30,
                     BaseURL ''https://api.cloudflare.com/client/v4'', Debug False,
                     UserAgent example_user_agent]\<rparr> \<and>
   framework_rps example_constants (env_host ''CLOUDFLARE_RPS'' ''99999999999999999999'')
     token_model = 9223372036854775807 \<and>
   Configure example_constants (env_host ''CLOUDFLARE_RPS'' ''99999999999999999999'') Inr
       ''3.30.0'' (request token_model) empty_response =
     \<lparr>Diagnostics = [],
      DataSourceData =
        Some \<lparr>Email = [], APIKey = [], APIUserServiceKey = [], APIToken = api_token_example,
          Options = [UsingRateLimit 9223372036854775807, UsingRetryPolicy 4 1 30,
                     BaseURL ''https://api.cloudflare.com/client/v4'', Debug False,
                     UserAgent example_user_agent]\<rparr>,
      ResourceData =
        Some \<lparr>Email = [], APIKey = [], APIUserServiceKey = [], APIToken = api_token_example,
          Options = [UsingRateLimit 9223372036854775807, UsingRetryPolicy 4 1 30,
                     BaseURL ''https://api.cloudflare.com/client/v4'', Debug False,
                     UserAgent example_user_agent]\<rparr>\<rparr>"
  by (simp add: configure_def sdkv2_config_def sdkv2_field_defs Configure_def
      framework_config_def framework_field_defs HasError_def library_defs example_defs Let_def)

section \<open>Account scoping\<close>

text \<open>
  C8: when no check fails, configuration hands to \<open>Client\<close> the configuration whose options
  are the five common options, followed by the account option with the resolved account id
  exactly when that id is non-empty, and returns the client that \<open>Client\<close> builds from it;
  a client that configuration returns was built from that configuration. The resolved account
  id is the account_id input when that is set, otherwise the value of the environment variable
  when present and non-empty, and it is empty when account_id is absent and the variable is
  unset. The five common options do not hold an account option and do not change with the
  account_id input.
\<close>

theorem account_scoping:
  fixes Client :: "Config \<Rightarrow> string + 'c" and Client' :: "Config \<Rightarrow> string + 'e"
  shows
  "(configure K h Client version tfv d = Inr client \<longrightarrow>
      (\<exists>c. sdkv2_config K h version tfv d = Inr c \<and> Client c = Inr client \<and>
         Options c = sdkv2_options K h version tfv d @
           (if sdkv2_accountID K h d \<noteq> [] then [UsingAccount (sdkv2_accountID K h d)]
            else []))) \<and>
   (d_account_id d = None \<and> Environ h (AccountIDEnvVarKey K) = None \<longrightarrow>
      sdkv2_accountID K h d = []) \<and>
   UsingAccount a \<notin> set (sdkv2_options K h version tfv d) \<and>
   sdkv2_options K h version tfv (d\<lparr>d_account_id := x\<rparr>) = sdkv2_options K h version tfv d \<and>
   (\<not> HasError (Append (Diagnostics resp) (Config_Get_diags req)) \<and>
    framework_config K h version (TerraformVersion req) (Config_Get_data req) = Inr c' \<and>
    Client' c' = Inr client' \<longrightarrow>
      Configure K h Client' version req resp =
        resp\<lparr>Diagnostics := Append (Diagnostics resp) (Config_Get_diags req),
             DataSourceData := Some client', ResourceData := Some client'\<rparr> \<and>
      Options c' = framework_options K h version (TerraformVersion req) (Config_Get_data req) @
        (if framework_accountID K h (Config_Get_data req) \<noteq> []
         then [UsingAccount (framework_accountID K h (Config_Get_data req))] else [])) \<and>
   (IsNull (data_AccountID data) \<and> Environ h (AccountIDEnvVarKey K) = None \<longrightarrow>
      framework_accountID K h data = []) \<and>
   UsingAccount a \<notin> set (framework_options K h version tfv data) \<and>
   framework_options K h version tfv (data\<lparr>data_AccountID := y\<rparr>) =
     framework_options K h version tfv data \<and>
   (d_account_id d = Some s \<and> s \<noteq> [] \<longrightarrow> sdkv2_accountID K h d = s) \<and>
   (\<not> snd (GetOk_string (d_account_id d)) \<and> Environ h (AccountIDEnvVarKey K) = Some v \<and>
    v \<noteq> [] \<longrightarrow> sdkv2_accountID K h d = v) \<and>
   (data_AccountID data = Known s \<longrightarrow> framework_accountID K h data = s) \<and>
   (IsNull (data_AccountID data) \<and> Environ h (AccountIDEnvVarKey K) = Some v \<and> v \<noteq> [] \<longrightarrow>
      framework_accountID K h data = v) \<and>
   (\<not> int (IntSize h) < sdkv2_retries K h d \<and> \<not> int (IntSize h) < sdkv2_minBackOff K h d \<and>
    \<not> int (IntSize h) < sdkv2_maxBackOff K h d \<and>
    \<not> (sdkv2_apiKey K h d \<noteq> [] \<and> sdkv2_email K h d = []) \<and>
    \<not> (sdkv2_apiKey K h d = [] \<and> sdkv2_apiToken K h d = [] \<and>
       sdkv2_apiUserServiceKey K h d = []) \<longrightarrow>
      sdkv2_config K h version tfv d = Inr (sdkv2_client_config K h version tfv d) \<and>
      configure K h Client version tfv d =
        (case Client (sdkv2_client_config K h version tfv d) of
           Inl err \<Rightarrow> Inl [sdkv2_error err]
         | Inr cl \<Rightarrow> Inr cl)) \<and>
   Options (sdkv2_client_config K h version tfv d) =
     sdkv2_options K h version tfv d @
       (if sdkv2_accountID K h d \<noteq> [] then [UsingAccount (sdkv2_accountID K h d)] else []) \<and>
   (\<not> HasError (Append (Diagnostics resp) (Config_Get_diags req)) \<and>
    \<not> int (IntSize h) < framework_retries K h (Config_Get_data req) \<and>
    \<not> int (IntSize h) < framework_minBackOff K h (Config_Get_data req) \<and>
    \<not> int (IntSize h) < framework_maxBackOff K h (Config_Get_data req) \<and>
    \<not> (framework_apiKey K h (Config_Get_data req) \<noteq> [] \<and>
       framework_email K h (Config_Get_data req) = []) \<and>
    \<not> (framework_apiKey K h (Config_Get_data req) = [] \<and>
       framework_apiToken K h (Config_Get_data req) = [] \<and>
       framework_apiUserServiceKey K h (Config_Get_data req) = []) \<longrightarrow>
      framework_config K h version (TerraformVersion req) (Config_Get_data req) =
        Inr (framework_client_config K h version (TerraformVersion req) (Config_Get_data req)) \<and>
      Configure K h Client' version req resp =
        (case Client' (framework_client_config K h version (TerraformVersion req)
                        (Config_Get_data req)) of
           Inl err \<Rightarrow>
             resp\<lparr>Diagnostics :=
               AddError (Append (Diagnostics resp) (Config_Get_diags req))
                 ''failed to initialize a new client'' err\<rparr>
         | Inr cl \<Rightarrow>
             resp\<lparr>Diagnostics := Append (Diagnostics resp) (Config_Get_diags req),
                  DataSourceData := Some cl, ResourceData := Some cl\<rparr>)) \<and>
   Options (framework_client_config K h version tfv data) =
     framework_options K h version tfv data @
       (if framework_accountID K h data \<noteq> [] then [UsingAccount (framework_accountID K h data)]
        else [])"
proof -
  have 1: "\<exists>c. sdkv2_config K h version tfv d = Inr c \<and> Client c = Inr client \<and>
         Options c = sdkv2_options K h version tfv d @
           (if sdkv2_accountID K h d \<noteq> [] then [UsingAccount (sdkv2_accountID K h d)]
            else [])"
    if "configure K h Client version tfv d = Inr client"
  proof -
    from that obtain c where c: "sdkv2_config K h version tfv d = Inr c" "Client c = Inr client"
      by (auto simp: configure_def split: sum.splits)
    from sdkv2_config_Inr [OF c(1)] have "Options c = sdkv2_options K h version tfv d @
           (if sdkv2_accountID K h d \<noteq> [] then [UsingAccount (sdkv2_accountID K h d)]
            else [])"
      by simp
    with c show ?thesis by blast
  qed
  have 2: "Configure K h Client' version req resp =
        resp\<lparr>Diagnostics := Append (Diagnostics resp) (Config_Get_diags req),
             DataSourceData := Some client', ResourceData := Some client'\<rparr> \<and>
      Options c' = framework_options K h version (TerraformVersion req) (Config_Get_data req) @
        (if framework_accountID K h (Config_Get_data req) \<noteq> []
         then [UsingAccount (framework_accountID K h (Config_Get_data req))] else [])"
    if "\<not> HasError (Append (Diagnostics resp) (Config_Get_diags req))"
      "framework_config K h version (TerraformVersion req) (Config_Get_data req) = Inr c'"
      "Client' c' = Inr client'"
  proof -
    from framework_config_Inr [OF that(2)] have "Options c' =
        framework_options K h version (TerraformVersion req) (Config_Get_data req) @
        (if framework_accountID K h (Config_Get_data req) \<noteq> []
         then [UsingAccount (framework_accountID K h (Config_Get_data req))] else [])"
      by simp
    moreover from that have "Configure K h Client' version req resp =
        resp\<lparr>Diagnostics := Append (Diagnostics resp) (Config_Get_diags req),
             DataSourceData := Some client', ResourceData := Some client'\<rparr>"
      by (simp add: Configure_def Let_def)
    ultimately show ?thesis by blast
  qed
  have 3: "d_account_id d = None \<and> Environ h (AccountIDEnvVarKey K) = None \<longrightarrow>
      sdkv2_accountID K h d = []"
    by (simp add: sdkv2_accountID_def GetOk_string_def Get_string_def GetDefaultFromEnv_def)
  have 4: "IsNull (data_AccountID data) \<and> Environ h (AccountIDEnvVarKey K) = None \<longrightarrow>
      framework_accountID K h data = []"
    by (simp add: framework_accountID_def GetDefaultFromEnv_def)
  have 5: "UsingAccount a \<notin> set (sdkv2_options K h version tfv d)"
    "UsingAccount a \<notin> set (framework_options K h version tfv data)"
    by (simp_all add: sdkv2_options_def framework_options_def)
  have 6: "sdkv2_options K h version tfv (d\<lparr>d_account_id := x\<rparr>) =
      sdkv2_options K h version tfv d"
    "framework_options K h version tfv (data\<lparr>data_AccountID := y\<rparr>) =
      framework_options K h version tfv data"
    by (simp_all add: sdkv2_options_def framework_options_def sdkv2_field_defs
        framework_field_defs)
  from 1 have c1: "configure K h Client version tfv d = Inr client \<longrightarrow>
      (\<exists>c. sdkv2_config K h version tfv d = Inr c \<and> Client c = Inr client \<and>
         Options c = sdkv2_options K h version tfv d @
           (if sdkv2_accountID K h d \<noteq> [] then [UsingAccount (sdkv2_accountID K h d)]
            else []))"
    by (rule impI)
  from 2 have c2: "\<not> HasError (Append (Diagnostics resp) (Config_Get_diags req)) \<and>
    framework_config K h version (TerraformVersion req) (Config_Get_data req) = Inr c' \<and>
    Client' c' = Inr client' \<longrightarrow>
      Configure K h Client' version req resp =
        resp\<lparr>Diagnostics := Append (Diagnostics resp) (Config_Get_diags req),
             DataSourceData := Some client', ResourceData := Some client'\<rparr> \<and>
      Options c' = framework_options K h version (TerraformVersion req) (Config_Get_data req) @
        (if framework_accountID K h (Config_Get_data req) \<noteq> []
         then [UsingAccount (framework_accountID K h (Config_Get_data req))] else [])"
    by (intro impI) (elim conjE)
  have 7: "d_account_id d = Some s \<and> s \<noteq> [] \<longrightarrow> sdkv2_accountID K h d = s"
    by (simp add: sdkv2_accountID_def GetOk_string_def Get_string_def)
  have 8: "\<not> snd (GetOk_string (d_account_id d)) \<and> Environ h (AccountIDEnvVarKey K) = Some v \<and>
    v \<noteq> [] \<longrightarrow> sdkv2_accountID K h d = v"
    by (simp add: sdkv2_accountID_def GetDefaultFromEnv_def)
  have 9: "data_AccountID data = Known s \<longrightarrow> framework_accountID K h data = s"
    by (simp add: framework_accountID_def IsNull_def ValueString_def)
  have 10: "IsNull (data_AccountID data) \<and> Environ h (AccountIDEnvVarKey K) = Some v \<and> v \<noteq> [] \<longrightarrow>
      framework_accountID K h data = v"
    by (simp add: framework_accountID_def GetDefaultFromEnv_def)
  have 11: "\<not> int (IntSize h) < sdkv2_retries K h d \<and> \<not> int (IntSize h) < sdkv2_minBackOff K h d \<and>
    \<not> int (IntSize h) < sdkv2_maxBackOff K h d \<and>
    \<not> (sdkv2_apiKey K h d \<noteq> [] \<and> sdkv2_email K h d = []) \<and>
    \<not> (sdkv2_apiKey K h d = [] \<and> sdkv2_apiToken K h d = [] \<and>
       sdkv2_apiUserServiceKey K h d = []) \<longrightarrow>
      sdkv2_config K h version tfv d = Inr (sdkv2_client_config K h version tfv d) \<and>
      configure K h Client version tfv d =
        (case Client (sdkv2_client_config K h version tfv d) of
           Inl err \<Rightarrow> Inl [sdkv2_error err]
         | Inr cl \<Rightarrow> Inr cl)"
  proof (intro impI, elim conjE)
    assume "\<not> int (IntSize h) < sdkv2_retries K h d" "\<not> int (IntSize h) < sdkv2_minBackOff K h d"
      "\<not> int (IntSize h) < sdkv2_maxBackOff K h d"
      "\<not> (sdkv2_apiKey K h d \<noteq> [] \<and> sdkv2_email K h d = [])"
      "\<not> (sdkv2_apiKey K h d = [] \<and> sdkv2_apiToken K h d = [] \<and>
         sdkv2_apiUserServiceKey K h d = [])"
    then have "sdkv2_config K h version tfv d = Inr (sdkv2_client_config K h version tfv d)"
      by (auto simp: sdkv2_config_def sdkv2_client_config_def sdkv2_options_def Let_def)
    then show "sdkv2_config K h version tfv d = Inr (sdkv2_client_config K h version tfv d) \<and>
      configure K h Client version tfv d =
        (case Client (sdkv2_client_config K h version tfv d) of
           Inl err \<Rightarrow> Inl [sdkv2_error err]
         | Inr cl \<Rightarrow> Inr cl)"
      by (simp add: configure_def)
  qed
  have 12: "Options (sdkv2_client_config K h version tfv d) =
     sdkv2_options K h version tfv d @
       (if sdkv2_accountID K h d \<noteq> [] then [UsingAccount (sdkv2_accountID K h d)] else [])"
    by (simp add: sdkv2_client_config_def)
  have 13: "\<not> HasError (Append (Diagnostics resp) (Config_Get_diags req)) \<and>
    \<not> int (IntSize h) < framework_retries K h (Config_Get_data req) \<and>
    \<not> int (IntSize h) < framework_minBackOff K h (Config_Get_data req) \<and>
    \<not> int (IntSize h) < framework_maxBackOff K h (Config_Get_data req) \<and>
    \<not> (framework_apiKey K h (Config_Get_data req) \<noteq> [] \<and>
       framework_email K h (Config_Get_data req) = []) \<and>
    \<not> (framework_apiKey K h (Config_Get_data req) = [] \<and>
       framework_apiToken K h (Config_Get_data req) = [] \<and>
       framework_apiUserServiceKey K h (Config_Get_data req) = []) \<longrightarrow>
      framework_config K h version (TerraformVersion req) (Config_Get_data req) =
        Inr (framework_client_config K h version (TerraformVersion req) (Config_Get_data req)) \<and>
      Configure K h Client' version req resp =
        (case Client' (framework_client_config K h version (TerraformVersion req)
                        (Config_Get_data req)) of
           Inl err \<Rightarrow>
             resp\<lparr>Diagnostics :=
               AddError (Append (Diagnostics resp) (Config_Get_diags req))
                 ''failed to initialize a new client'' err\<rparr>
         | Inr cl \<Rightarrow>
             resp\<lparr>Diagnostics := Append (Diagnostics resp) (Config_Get_diags req),
                  DataSourceData := Some cl, ResourceData := Some cl\<rparr>)"
  proof (intro impI, elim conjE)
    assume e: "\<not> HasError (Append (Diagnostics resp) (Config_Get_diags req))"
    assume "\<not> int (IntSize h) < framework_retries K h (Config_Get_data req)"
      "\<not> int (IntSize h) < framework_minBackOff K h (Config_Get_data req)"
      "\<not> int (IntSize h) < framework_maxBackOff K h (Config_Get_data req)"
      "\<not> (framework_apiKey K h (Config_Get_data req) \<noteq> [] \<and>
         framework_email K h (Config_Get_data req) = [])"
      "\<not> (framework_apiKey K h (Config_Get_data req) = [] \<and>
         framework_apiToken K h (Config_Get_data req) = [] \<and>
         framework_apiUserServiceKey K h (Config_Get_data req) = [])"
    then have f: "framework_config K h version (TerraformVersion req) (Config_Get_data req) =
        Inr (framework_client_config K h version (TerraformVersion req) (Config_Get_data req))"
      by (auto simp: framework_config_def framework_client_config_def framework_options_def
          Let_def)
    with e show "framework_config K h version (TerraformVersion req) (Config_Get_data req) =
        Inr (framework_client_config K h version (TerraformVersion req) (Config_Get_data req)) \<and>
      Configure K h Client' version req resp =
        (case Client' (framework_client_config K h version (TerraformVersion req)
                        (Config_Get_data req)) of
           Inl err \<Rightarrow>
             resp\<lparr>Diagnostics :=
               AddError (Append (Diagnostics resp) (Config_Get_diags req))
                 ''failed to initialize a new client'' err\<rparr>
         | Inr cl \<Rightarrow>
             resp\<lparr>Diagnostics := Append (Diagnostics resp) (Config_Get_diags req),
                  DataSourceData := Some cl, ResourceData := Some cl\<rparr>)"
      by (simp add: Configure_def Let_def split: sum.splits)
  qed
  have 14: "Options (framework_client_config K h version tfv data) =
     framework_options K h version tfv data @
       (if framework_accountID K h data \<noteq> [] then [UsingAccount (framework_accountID K h data)]
        else [])"
    by (simp add: framework_client_config_def)
  show ?thesis
    by (intro conjI) (fact c1 c2 3 4 5 6 7 8 9 10 11 12 13 14)+
qed

theorem account_scoping_witness:
  "d_account_id account_input = Some ''acct123'' \<and>
   sdkv2_accountID example_constants empty_host account_input = ''acct123'' \<and>
   configure example_constants empty_host Inr ''3.30.0'' ''1.5.0'' account_input =
     Inr \<lparr>Email = [], APIKey = [], APIUserServiceKey = [], APIToken = api_token_example,
          Options = [UsingRateLimit 4, UsingRetryPolicy 4 1 30,
                     BaseURL ''https://api.cloudflare.com/client/v4'', Debug False,
                     UserAgent example_user_agent, UsingAccount ''acct123'']\<rparr> \<and>
   d_account_id token_input = None \<and>
   Environ empty_host (AccountIDEnvVarKey example_constants) = None \<and>
   sdkv2_accountID example_constants empty_host token_input = [] \<and>
   configure example_constants empty_host Inr ''3.30.0'' ''1.5.0'' token_input =
     Inr \<lparr>Email = [], APIKey = [], APIUserServiceKey = [], APIToken = api_token_example,
          Options = [UsingRateLimit 4, UsingRetryPolicy 4 1 30,
                     BaseURL ''https://api.cloudflare.com/client/v4'', Debug False,
                     UserAgent example_user_agent]\<rparr> \<and>
   data_AccountID account_model = Known ''acct123'' \<and>
   framework_accountID example_constants empty_host account_model = ''acct123'' \<and>
   Configure example_constants empty_host Inr ''3.30.0'' (request account_model) empty_response =
     \<lparr>Diagnostics = [],
      DataSourceData =
        Some \<lparr>Email = [], APIKey = [], APIUserServiceKey = [], APIToken = api_token_example,
          Options = [UsingRateLimit 4, UsingRetryPolicy 4 1 30,
                     BaseURL ''https://api.cloudflare.com/client/v4'', Debug False,
                     UserAgent example_user_agent, UsingAccount ''acct123'']\<rparr>,
      ResourceData =
        Some \<lparr>Email = [], APIKey = [], APIUserServiceKey = [], APIToken = api_token_example,
          Options = [UsingRateLimit 4, UsingRetryPolicy 4 1 30,
                     BaseURL ''https://api.cloudflare.com/client/v4'', Debug False,
                     UserAgent example_user_agent, UsingAccount ''acct123'']\<rparr>\<rparr> \<and>
   framework_config example_constants empty_host ''3.30.0'' ''1.5.0'' account_model =
     Inr \<lparr>Email = [], APIKey = [], APIUserServiceKey = [], APIToken = api_token_example,
          Options = [UsingRateLimit 4, UsingRetryPolicy 4 1 30,
                     BaseURL ''https://api.cloudflare.com/client/v4'', Debug False,
                     UserAgent example_user_agent, UsingAccount ''acct123'']\<rparr> \<and>
   IsNull (data_AccountID token_model) \<and>
   framework_accountID example_constants empty_host token_model = [] \<and>
   Configure example_constants empty_host Inr ''3.30.0'' (request token_model) empty_response =
     \<lparr>Diagnostics = [],
      DataSourceData =
        Some \<lparr>Email = [], APIKey = [], APIUserServiceKey = [], APIToken = api_token_example,
          Options = [UsingRateLimit 4, UsingRetryPolicy 4 1 30,
                     BaseURL ''https://api.cloudflare.com/client/v4'', Debug False,
                     UserAgent example_user_agent]\<rparr>,
      ResourceData =
        Some \<lparr>Email = [], APIKey = [], APIUserServiceKey = [], APIToken = api_token_example,
          Options = [UsingRateLimit 4, UsingRetryPolicy 4 1 30,
                     BaseURL ''https://api.cloudflare.com/client/v4'', Debug False,
                     UserAgent example_user_agent]\<rparr>\<rparr>"
proof -
  note S = account_scoping [where K = example_constants and h = empty_host
      and version = "''3.30.0''" and tfv = "''1.5.0''"]
  have i: "d_account_id account_input = Some ''acct123''" "d_account_id token_input = None"
    "Environ empty_host (AccountIDEnvVarKey example_constants) = None"
    "data_AccountID account_model = Known ''acct123''" "IsNull (data_AccountID token_model)"
    by (simp_all add: example_defs IsNull_def)
  have a1: "sdkv2_accountID example_constants empty_host account_input = ''acct123''"
    using i(1) S [where d = account_input and s = "''acct123''", THEN conjunct2, THEN conjunct2, THEN conjunct2, THEN conjunct2, THEN conjunct2, THEN conjunct2, THEN conjunct2, THEN conjunct2, THEN conjunct1]
    by simp
  have a2: "sdkv2_accountID example_constants empty_host token_input = []"
    using i(2,3) S [where d = token_input, THEN conjunct2, THEN conjunct1]
    by simp
  have a3: "framework_accountID example_constants empty_host account_model = ''acct123''"
    using i(4) S [where data = account_model and s = "''acct123''", THEN conjunct2, THEN conjunct2, THEN conjunct2, THEN conjunct2, THEN conjunct2, THEN conjunct2, THEN conjunct2, THEN conjunct2, THEN conjunct2, THEN conjunct2, THEN conjunct1]
    by simp
  have a4: "framework_accountID example_constants empty_host token_model = []"
    using i(3,5) S [where data = token_model, THEN conjunct2, THEN conjunct2, THEN conjunct2, THEN conjunct2, THEN conjunct2, THEN conjunct1]
    by simp
  have o: "sdkv2_options example_constants empty_host ''3.30.0'' ''1.5.0'' account_input =
      [UsingRateLimit 4, UsingRetryPolicy 4 1 30,
       BaseURL ''https://api.cloudflare.com/client/v4'', Debug False,
       UserAgent example_user_agent]"
    "sdkv2_options example_constants empty_host ''3.30.0'' ''1.5.0'' token_input =
      [UsingRateLimit 4, UsingRetryPolicy 4 1 30,
       BaseURL ''https://api.cloudflare.com/client/v4'', Debug False,
       UserAgent example_user_agent]"
    "framework_options example_constants empty_host ''3.30.0'' ''1.5.0'' account_model =
      [UsingRateLimit 4, UsingRetryPolicy 4 1 30,
       BaseURL ''https://api.cloudflare.com/client/v4'', Debug False,
       UserAgent example_user_agent]"
    "framework_options example_constants empty_host ''3.30.0'' ''1.5.0'' token_model =
      [UsingRateLimit 4, UsingRetryPolicy 4 1 30,
       BaseURL ''https://api.cloudflare.com/client/v4'', Debug False,
       UserAgent example_user_agent]"
    by (simp_all add: sdkv2_options_def framework_options_def sdkv2_field_defs
        framework_field_defs library_defs example_defs)
  have p: "\<not> int (IntSize empty_host) < sdkv2_retries example_constants empty_host account_input"
    "\<not> int (IntSize empty_host) < sdkv2_minBackOff example_constants empty_host account_input"
    "\<not> int (IntSize empty_host) < sdkv2_maxBackOff example_constants empty_host account_input"
    "\<not> (sdkv2_apiKey example_constants empty_host account_input \<noteq> [] \<and>
        sdkv2_email example_constants empty_host account_input = [])"
    "\<not> (sdkv2_apiKey example_constants empty_host account_input = [] \<and>
        sdkv2_apiToken example_constants empty_host account_input = [] \<and>
        sdkv2_apiUserServiceKey example_constants empty_host account_input = [])"
    by (simp_all add: sdkv2_field_defs library_defs example_defs)
  have q: "\<not> int (IntSize empty_host) < sdkv2_retries example_constants empty_host token_input"
    "\<not> int (IntSize empty_host) < sdkv2_minBackOff example_constants empty_host token_input"
    "\<not> int (IntSize empty_host) < sdkv2_maxBackOff example_constants empty_host token_input"
    "\<not> (sdkv2_apiKey example_constants empty_host token_input \<noteq> [] \<and>
        sdkv2_email example_constants empty_host token_input = [])"
    "\<not> (sdkv2_apiKey example_constants empty_host token_input = [] \<and>
        sdkv2_apiToken example_constants empty_host token_input = [] \<and>
        sdkv2_apiUserServiceKey example_constants empty_host token_input = [])"
    by (simp_all add: sdkv2_field_defs library_defs example_defs)
  have cr: "sdkv2_apiKey example_constants empty_host account_input = []"
    "sdkv2_apiToken example_constants empty_host account_input = api_token_example"
    "sdkv2_apiUserServiceKey example_constants empty_host account_input = []"
    "sdkv2_apiKey example_constants empty_host token_input = []"
    "sdkv2_apiToken example_constants empty_host token_input = api_token_example"
    "sdkv2_apiUserServiceKey example_constants empty_host token_input = []"
    "framework_apiKey example_constants empty_host account_model = []"
    "framework_apiToken example_constants empty_host account_model = api_token_example"
    "framework_apiUserServiceKey example_constants empty_host account_model = []"
    "framework_apiKey example_constants empty_host token_model = []"
    "framework_apiToken example_constants empty_host token_model = api_token_example"
    "framework_apiUserServiceKey example_constants empty_host token_model = []"
    by (simp_all add: sdkv2_field_defs framework_field_defs library_defs example_defs)
  have c1: "configure example_constants empty_host Inr ''3.30.0'' ''1.5.0'' account_input =
      Inr (sdkv2_client_config example_constants empty_host ''3.30.0'' ''1.5.0'' account_input)"
    using S [where d = account_input and Client = Inr, THEN conjunct2, THEN conjunct2, THEN conjunct2, THEN conjunct2, THEN conjunct2, THEN conjunct2, THEN conjunct2, THEN conjunct2, THEN conjunct2, THEN conjunct2, THEN conjunct2, THEN conjunct2, THEN conjunct1] p
    by simp
  have c2: "configure example_constants empty_host Inr ''3.30.0'' ''1.5.0'' token_input =
      Inr (sdkv2_client_config example_constants empty_host ''3.30.0'' ''1.5.0'' token_input)"
    using S [where d = token_input and Client = Inr, THEN conjunct2, THEN conjunct2, THEN conjunct2, THEN conjunct2, THEN conjunct2, THEN conjunct2, THEN conjunct2, THEN conjunct2, THEN conjunct2, THEN conjunct2, THEN conjunct2, THEN conjunct2, THEN conjunct1] q
    by simp
  have k1: "sdkv2_client_config example_constants empty_host ''3.30.0'' ''1.5.0'' account_input =
      \<lparr>Email = [], APIKey = [], APIUserServiceKey = [], APIToken = api_token_example,
       Options = [UsingRateLimit 4, UsingRetryPolicy 4 1 30,
                  BaseURL ''https://api.cloudflare.com/client/v4'', Debug False,
                  UserAgent example_user_agent, UsingAccount ''acct123'']\<rparr>"
    by (simp add: sdkv2_client_config_def cr a1 o)
  have k2: "sdkv2_client_config example_constants empty_host ''3.30.0'' ''1.5.0'' token_input =
      \<lparr>Email = [], APIKey = [], APIUserServiceKey = [], APIToken = api_token_example,
       Options = [UsingRateLimit 4, UsingRetryPolicy 4 1 30,
                  BaseURL ''https://api.cloudflare.com/client/v4'', Debug False,
                  UserAgent example_user_agent]\<rparr>"
    by (simp add: sdkv2_client_config_def cr a2 o)
  have r: "\<not> HasError (Append (Diagnostics empty_response) (Config_Get_diags (request m)))"
    "Append (Diagnostics empty_response) (Config_Get_diags (request m)) = []"
    "Config_Get_data (request m) = m" "TerraformVersion (request m) = ''1.5.0''" for m
    by (simp_all add: HasError_def empty_response_def request_def)
  have fp: "\<not> int (IntSize empty_host) < framework_retries example_constants empty_host account_model"
    "\<not> int (IntSize empty_host) < framework_minBackOff example_constants empty_host account_model"
    "\<not> int (IntSize empty_host) < framework_maxBackOff example_constants empty_host account_model"
    "\<not> int (IntSize empty_host) < framework_retries example_constants empty_host token_model"
    "\<not> int (IntSize empty_host) < framework_minBackOff example_constants empty_host token_model"
    "\<not> int (IntSize empty_host) < framework_maxBackOff example_constants empty_host token_model"
    by (simp_all add: framework_field_defs library_defs example_defs)
  have tk: "api_token_example \<noteq> []"
    by (simp add: api_token_example_def)
  have f1: "Configure example_constants empty_host Inr ''3.30.0'' (request account_model)
      empty_response =
        empty_response\<lparr>Diagnostics := [],
          DataSourceData := Some (framework_client_config example_constants empty_host
            ''3.30.0'' ''1.5.0'' account_model),
          ResourceData := Some (framework_client_config example_constants empty_host
            ''3.30.0'' ''1.5.0'' account_model)\<rparr>"
    using S [where req = "request account_model" and resp = empty_response and Client' = Inr,
        THEN conjunct2, THEN conjunct2, THEN conjunct2, THEN conjunct2, THEN conjunct2, THEN conjunct2, THEN conjunct2, THEN conjunct2, THEN conjunct2, THEN conjunct2, THEN conjunct2, THEN conjunct2, THEN conjunct2, THEN conjunct2, THEN conjunct1] fp cr tk
    by (simp add: r HasError_def)
  have f2: "Configure example_constants empty_host Inr ''3.30.0'' (request token_model)
      empty_response =
        empty_response\<lparr>Diagnostics := [],
          DataSourceData := Some (framework_client_config example_constants empty_host
            ''3.30.0'' ''1.5.0'' token_model),
          ResourceData := Some (framework_client_config example_constants empty_host
            ''3.30.0'' ''1.5.0'' token_model)\<rparr>"
    using S [where req = "request token_model" and resp = empty_response and Client' = Inr,
        THEN conjunct2, THEN conjunct2, THEN conjunct2, THEN conjunct2, THEN conjunct2, THEN conjunct2, THEN conjunct2, THEN conjunct2, THEN conjunct2, THEN conjunct2, THEN conjunct2, THEN conjunct2, THEN conjunct2, THEN conjunct2, THEN conjunct1] fp cr tk
    by (simp add: r HasError_def)
  have k3: "framework_client_config example_constants empty_host ''3.30.0'' ''1.5.0''
      account_model =
      \<lparr>Email = [], APIKey = [], APIUserServiceKey = [], APIToken = api_token_example,
       Options = [UsingRateLimit 4, UsingRetryPolicy 4 1 30,
                  BaseURL ''https://api.cloudflare.com/client/v4'', Debug False,
                  UserAgent example_user_agent, UsingAccount ''acct123'']\<rparr>"
    by (simp add: framework_client_config_def cr a3 o)
  have k4: "framework_client_config example_constants empty_host ''3.30.0'' ''1.5.0''
      token_model =
      \<lparr>Email = [], APIKey = [], APIUserServiceKey = [], APIToken = api_token_example,
       Options = [UsingRateLimit 4, UsingRetryPolicy 4 1 30,
                  BaseURL ''https://api.cloudflare.com/client/v4'', Debug False,
                  UserAgent example_user_agent]\<rparr>"
    by (simp add: framework_client_config_def cr a4 o)
  have g1: "configure example_constants empty_host Inr ''3.30.0'' ''1.5.0'' account_input =
     Inr \<lparr>Email = [], APIKey = [], APIUserServiceKey = [], APIToken = api_token_example,
          Options = [UsingRateLimit 4, UsingRetryPolicy 4 1 30,
                     BaseURL ''https://api.cloudflare.com/client/v4'', Debug False,
                     UserAgent example_user_agent, UsingAccount ''acct123'']\<rparr>"
    by (simp only: c1 k1)
  have g2: "configure example_constants empty_host Inr ''3.30.0'' ''1.5.0'' token_input =
     Inr \<lparr>Email = [], APIKey = [], APIUserServiceKey = [], APIToken = api_token_example,
          Options = [UsingRateLimit 4, UsingRetryPolicy 4 1 30,
                     BaseURL ''https://api.cloudflare.com/client/v4'', Debug False,
                     UserAgent example_user_agent]\<rparr>"
    by (simp only: c2 k2)
  have g3: "Configure example_constants empty_host Inr ''3.30.0'' (request account_model)
      empty_response =
     \<lparr>Diagnostics = [],
      DataSourceData =
        Some \<lparr>Email = [], APIKey = [], APIUserServiceKey = [], APIToken = api_token_example,
          Options = [UsingRateLimit 4, UsingRetryPolicy 4 1 30,
                     BaseURL ''https://api.cloudflare.com/client/v4'', Debug False,
                     UserAgent example_user_agent, UsingAccount ''acct123'']\<rparr>,
      ResourceData =
        Some \<lparr>Email = [], APIKey = [], APIUserServiceKey = [], APIToken = api_token_example,
          Options = [UsingRateLimit 4, UsingRetryPolicy 4 1 30,
                     BaseURL ''https://api.cloudflare.com/client/v4'', Debug False,
                     UserAgent example_user_agent, UsingAccount ''acct123'']\<rparr>\<rparr>"
    by (subst f1) (simp add: k3 empty_response_def)
  have g4: "Configure example_constants empty_host Inr ''3.30.0'' (request token_model)
      empty_response =
     \<lparr>Diagnostics = [],
      DataSourceData =
        Some \<lparr>Email = [], APIKey = [], APIUserServiceKey = [], APIToken = api_token_example,
          Options = [UsingRateLimit 4, UsingRetryPolicy 4 1 30,
                     BaseURL ''https://api.cloudflare.com/client/v4'', Debug False,
                     UserAgent example_user_agent]\<rparr>,
      ResourceData =
        Some \<lparr>Email = [], APIKey = [], APIUserServiceKey = [], APIToken = api_token_example,
          Options = [UsingRateLimit 4, UsingRetryPolicy 4 1 30,
                     BaseURL ''https://api.cloudflare.com/client/v4'', Debug False,
                     UserAgent example_user_agent]\<rparr>\<rparr>"
    by (subst f2) (simp add: k4 empty_response_def)
  have d1: "framework_config example_constants empty_host ''3.30.0'' ''1.5.0'' account_model =
     Inr \<lparr>Email = [], APIKey = [], APIUserServiceKey = [], APIToken = api_token_example,
          Options = [UsingRateLimit 4, UsingRetryPolicy 4 1 30,
                     BaseURL ''https://api.cloudflare.com/client/v4'', Debug False,
                     UserAgent example_user_agent, UsingAccount ''acct123'']\<rparr>"
    by (simp add: framework_config_def framework_field_defs library_defs example_defs Let_def)
  have d2: "configure example_constants empty_host Inr ''3.30.0'' ''1.5.0'' account_input =
     Inr \<lparr>Email = [], APIKey = [], APIUserServiceKey = [], APIToken = api_token_example,
          Options = [UsingRateLimit 4, UsingRetryPolicy 4 1 30,
                     BaseURL ''https://api.cloudflare.com/client/v4'', Debug False,
                     UserAgent example_user_agent, UsingAccount ''acct123'']\<rparr>"
    by (simp add: configure_def sdkv2_config_def sdkv2_field_defs library_defs example_defs
        Let_def)
  show ?thesis
    by (intro conjI) (fact i a1 a2 a3 a4 d2 g1 g2 g3 g4 d1)+
qed

section \<open>Precedence\<close>

lemmas set_defs =
  three_step_def set_string_def set_int_def non_empty_string_def non_null_string_def
  non_null_int_def parsed_def

text \<open>
  C2: every field of the SDKv2 provider, and every field of the framework provider other
  than min_backoff and max_backoff, is resolved by the three-step precedence: the explicit
  input when it is set, otherwise the environment variable when present and non-empty,
  otherwise the default. The integer fields read the text of the variable or of the default
  with ParseInt; the default of the credentials, the email and the account id is the empty
  string.
\<close>

theorem three_step_precedence:
  "sdkv2_baseHostname K h d =
     three_step id (set_string (d_api_hostname d)) (Environ h (APIHostnameEnvVarKey K))
       (APIHostnameDefault K) \<and>
   sdkv2_basePath K h d =
     three_step id (set_string (d_api_base_path d)) (Environ h (APIBasePathEnvVarKey K))
       (APIBasePathDefault K) \<and>
   sdkv2_rps K h d =
     three_step parsed (set_int (d_rps d)) (Environ h (RPSEnvVarKey K)) (RPSDefault K) \<and>
   sdkv2_retries K h d =
     three_step parsed (set_int (d_retries d)) (Environ h (RetriesEnvVarKey K))
       (RetriesDefault K) \<and>
   sdkv2_minBackOff K h d =
     three_step parsed (set_int (d_min_backoff d)) (Environ h (MinimumBackoffEnvVar K))
       (MinimumBackoffDefault K) \<and>
   sdkv2_maxBackOff K h d =
     three_step parsed (set_int (d_max_backoff d)) (Environ h (MaximumBackoffEnvVarKey K))
       (MaximumBackoffDefault K) \<and>
   sdkv2_apiToken K h d =
     three_step id (set_string (d_api_token d)) (Environ h (APITokenEnvVarKey K)) [] \<and>
   sdkv2_apiKey K h d =
     three_step id (set_string (d_api_key d)) (Environ h (APIKeyEnvVarKey K)) [] \<and>
   sdkv2_email K h d =
     three_step id (set_string (d_email d)) (Environ h (EmailEnvVarKey K)) [] \<and>
   sdkv2_apiUserServiceKey K h d =
     three_step id (set_string (d_api_user_service_key d))
       (Environ h (APIUserServiceKeyEnvVarKey K)) [] \<and>
   sdkv2_accountID K h d =
     three_step id (set_string (d_account_id d)) (Environ h (AccountIDEnvVarKey K)) [] \<and>
   framework_baseHostname K h data =
     three_step id (non_empty_string (data_APIHostname data))
       (Environ h (APIHostnameEnvVarKey K)) (APIHostnameDefault K) \<and>
   framework_basePath K h data =
     three_step id (non_empty_string (data_APIBasePath data))
       (Environ h (APIBasePathEnvVarKey K)) (APIBasePathDefault K) \<and>
   framework_rps K h data =
     three_step parsed (non_null_int (data_RPS data)) (Environ h (RPSEnvVarKey K))
       (RPSDefault K) \<and>
   framework_retries K h data =
     three_step parsed (non_null_int (data_Retries data)) (Environ h (RetriesEnvVarKey K))
       (RetriesDefault K) \<and>
   framework_apiToken K h data =
     three_step id (non_null_string (data_APIToken data)) (Environ h (APITokenEnvVarKey K)) [] \<and>
   framework_apiKey K h data =
     three_step id (non_null_string (data_APIKey data)) (Environ h (APIKeyEnvVarKey K)) [] \<and>
   framework_email K h data =
     three_step id (non_null_string (data_Email data)) (Environ h (EmailEnvVarKey K)) [] \<and>
   framework_apiUserServiceKey K h data =
     three_step id (non_null_string (data_APIUserServiceKey data))
       (Environ h (APIUserServiceKeyEnvVarKey K)) [] \<and>
   framework_accountID K h data =
     three_step id (non_null_string (data_AccountID data)) (Environ h (AccountIDEnvVarKey K)) []"
proof -
  have s: "\<And>a key dflt. (if snd (GetOk_string a) then fst (GetOk_string a)
        else GetDefaultFromEnv h key dflt) = three_step id (set_string a) (Environ h key) dflt"
    by (simp add: set_defs GetOk_string_def Get_string_def GetDefaultFromEnv_def
        split: option.splits)
  have g: "\<And>a key dflt. (if Get_string a \<noteq> [] then Get_string a
        else GetDefaultFromEnv h key dflt) = three_step id (set_string a) (Environ h key) dflt"
    by (simp add: set_defs Get_string_def GetDefaultFromEnv_def split: option.splits)
  have i: "\<And>a key dflt. (if snd (GetOk_int a) then Get_int a
        else fst (ParseInt (GetDefaultFromEnv h key dflt))) =
      three_step parsed (set_int a) (Environ h key) dflt"
    by (simp add: set_defs GetOk_int_def Get_int_def GetDefaultFromEnv_def split: option.splits)
  have e: "\<And>v key dflt. (if ValueString v \<noteq> [] then ValueString v
        else GetDefaultFromEnv h key dflt) =
      three_step id (non_empty_string v) (Environ h key) dflt"
    by (simp add: set_defs GetDefaultFromEnv_def split: option.splits)
  have n: "\<And>v key dflt. (if \<not> IsNull v then ValueString v
        else GetDefaultFromEnv h key dflt) =
      three_step id (non_null_string v) (Environ h key) dflt"
    by (simp add: set_defs GetDefaultFromEnv_def split: option.splits)
  have m: "\<And>v key dflt. (if \<not> IsNull v then ValueInt64 v
        else fst (ParseInt (GetDefaultFromEnv h key dflt))) =
      three_step parsed (non_null_int v) (Environ h key) dflt"
    by (simp add: set_defs GetDefaultFromEnv_def split: option.splits)
  show ?thesis
    unfolding sdkv2_field_defs framework_baseHostname_def framework_basePath_def
      framework_rps_def framework_retries_def framework_apiToken_def framework_apiKey_def
      framework_email_def framework_apiUserServiceKey_def framework_accountID_def
    by (intro conjI) (rule s g i e n m)+
qed


theorem three_step_precedence_witness:
  "sdkv2_retries example_constants empty_host no_input = 4 \<and>
   sdkv2_retries example_constants (env_host ''CLOUDFLARE_RETRIES'' ''7'') no_input = 7 \<and>
   sdkv2_retries example_constants (env_host ''CLOUDFLARE_RETRIES'' ''7'')
     (no_input\<lparr>d_retries := Some 2\<rparr>) = 2 \<and>
   framework_baseHostname example_constants empty_host null_model = ''api.cloudflare.com'' \<and>
   framework_baseHostname example_constants (env_host ''CLOUDFLARE_API_HOSTNAME'' ''api.example.com'')
     null_model = ''api.example.com'' \<and>
   framework_baseHostname example_constants (env_host ''CLOUDFLARE_API_HOSTNAME'' ''api.example.com'')
     (null_model\<lparr>data_APIHostname := Known ''api.internal''\<rparr>) = ''api.internal''"
proof -
  note T = three_step_precedence [where K = example_constants]
  have p: "parsed ''4'' = 4" "parsed ''7'' = 7"
    by (simp_all add: parsed_def ParseInt_def ParseUint_def maxUint64_def cutoff_def is_digit_def)
  have "sdkv2_retries example_constants empty_host no_input = 4"
    by (subst T [THEN conjunct2, THEN conjunct2, THEN conjunct2, THEN conjunct1])
      (simp add: three_step_def set_int_def p example_defs)
  moreover have
    "sdkv2_retries example_constants (env_host ''CLOUDFLARE_RETRIES'' ''7'') no_input = 7"
    by (subst T [THEN conjunct2, THEN conjunct2, THEN conjunct2, THEN conjunct1])
      (simp add: three_step_def set_int_def p example_defs)
  moreover have "sdkv2_retries example_constants (env_host ''CLOUDFLARE_RETRIES'' ''7'')
     (no_input\<lparr>d_retries := Some 2\<rparr>) = 2"
    by (subst T [THEN conjunct2, THEN conjunct2, THEN conjunct2, THEN conjunct1])
      (simp add: three_step_def set_int_def p example_defs)
  moreover have
    "framework_baseHostname example_constants empty_host null_model = ''api.cloudflare.com''"
    "framework_baseHostname example_constants
       (env_host ''CLOUDFLARE_API_HOSTNAME'' ''api.example.com'') null_model = ''api.example.com''"
    "framework_baseHostname example_constants
       (env_host ''CLOUDFLARE_API_HOSTNAME'' ''api.example.com'')
       (null_model\<lparr>data_APIHostname := Known ''api.internal''\<rparr>) = ''api.internal''"
    by (subst T [THEN conjunct2, THEN conjunct2, THEN conjunct2, THEN conjunct2,
          THEN conjunct2, THEN conjunct2, THEN conjunct2, THEN conjunct2, THEN conjunct2,
          THEN conjunct2, THEN conjunct2, THEN conjunct1],
        simp add: three_step_def non_empty_string_def ValueString_def example_defs)+
  ultimately show ?thesis by (intro conjI)
qed

theorem precedence_counterexample:
  "data_APIHostname (null_model\<lparr>data_APIHostname := Known []\<rparr>) = Known [] \<and>
   framework_baseHostname example_constants
     (env_host ''CLOUDFLARE_API_HOSTNAME'' ''api.example.com'')
     (null_model\<lparr>data_APIHostname := Known []\<rparr>) = ''api.example.com'' \<and>
   data_MinBackOff backoff_model = Known 1 \<and>
   data_MaxBackoff backoff_model = Known 30 \<and>
   framework_minBackOff example_constants empty_host backoff_model = 30"
  by (simp add: framework_field_defs library_defs example_defs backoff_model_def)

section \<open>Empty and zero inputs\<close>

text \<open>
  C6: in the framework provider a known rps, retries, api_token, api_key, email,
  api_user_service_key or account_id is the resolved value, also when it is zero or the empty
  string. In the SDKv2 provider every field set to zero or to the empty string resolves as
  the unset field does, and so do api_hostname and api_base_path in the framework provider.
\<close>

theorem explicit_zero_or_empty:
  "(data_RPS data = Known r \<longrightarrow> framework_rps K h data = r) \<and>
   (data_Retries data = Known r \<longrightarrow> framework_retries K h data = r) \<and>
   (data_APIToken data = Known s \<longrightarrow> framework_apiToken K h data = s) \<and>
   (data_APIKey data = Known s \<longrightarrow> framework_apiKey K h data = s) \<and>
   (data_Email data = Known s \<longrightarrow> framework_email K h data = s) \<and>
   (data_APIUserServiceKey data = Known s \<longrightarrow> framework_apiUserServiceKey K h data = s) \<and>
   (data_AccountID data = Known s \<longrightarrow> framework_accountID K h data = s) \<and>
   framework_baseHostname K h (data\<lparr>data_APIHostname := Known []\<rparr>) =
     framework_baseHostname K h (data\<lparr>data_APIHostname := Null\<rparr>) \<and>
   framework_basePath K h (data\<lparr>data_APIBasePath := Known []\<rparr>) =
     framework_basePath K h (data\<lparr>data_APIBasePath := Null\<rparr>) \<and>
   sdkv2_baseHostname K h (d\<lparr>d_api_hostname := Some []\<rparr>) =
     sdkv2_baseHostname K h (d\<lparr>d_api_hostname := None\<rparr>) \<and>
   sdkv2_basePath K h (d\<lparr>d_api_base_path := Some []\<rparr>) =
     sdkv2_basePath K h (d\<lparr>d_api_base_path := None\<rparr>) \<and>
   sdkv2_rps K h (d\<lparr>d_rps := Some 0\<rparr>) = sdkv2_rps K h (d\<lparr>d_rps := None\<rparr>) \<and>
   sdkv2_retries K h (d\<lparr>d_retries := Some 0\<rparr>) = sdkv2_retries K h (d\<lparr>d_retries := None\<rparr>) \<and>
   sdkv2_minBackOff K h (d\<lparr>d_min_backoff := Some 0\<rparr>) =
     sdkv2_minBackOff K h (d\<lparr>d_min_backoff := None\<rparr>) \<and>
   sdkv2_maxBackOff K h (d\<lparr>d_max_backoff := Some 0\<rparr>) =
     sdkv2_maxBackOff K h (d\<lparr>d_max_backoff := None\<rparr>) \<and>
   sdkv2_apiToken K h (d\<lparr>d_api_token := Some []\<rparr>) =
     sdkv2_apiToken K h (d\<lparr>d_api_token := None\<rparr>) \<and>
   sdkv2_apiKey K h (d\<lparr>d_api_key := Some []\<rparr>) = sdkv2_apiKey K h (d\<lparr>d_api_key := None\<rparr>) \<and>
   sdkv2_email K h (d\<lparr>d_email := Some []\<rparr>) = sdkv2_email K h (d\<lparr>d_email := None\<rparr>) \<and>
   sdkv2_apiUserServiceKey K h (d\<lparr>d_api_user_service_key := Some []\<rparr>) =
     sdkv2_apiUserServiceKey K h (d\<lparr>d_api_user_service_key := None\<rparr>) \<and>
   sdkv2_accountID K h (d\<lparr>d_account_id := Some []\<rparr>) =
     sdkv2_accountID K h (d\<lparr>d_account_id := None\<rparr>)"
  by (simp add: sdkv2_field_defs framework_field_defs Get_string_def Get_int_def
      GetOk_string_def GetOk_int_def IsNull_def ValueString_def ValueInt64_def)

theorem explicit_zero_or_empty_witness:
  "data_RPS (null_model\<lparr>data_RPS := Known 0\<rparr>) = Known 0 \<and>
   framework_rps example_constants (env_host ''CLOUDFLARE_RPS'' ''10'')
     (null_model\<lparr>data_RPS := Known 0\<rparr>) = 0 \<and>
   data_AccountID (null_model\<lparr>data_AccountID := Known []\<rparr>) = Known [] \<and>
   framework_accountID example_constants (env_host ''CLOUDFLARE_ACCOUNT_ID'' ''acct123'')
     (null_model\<lparr>data_AccountID := Known []\<rparr>) = []"
proof -
  have a: "data_RPS (null_model\<lparr>data_RPS := Known 0\<rparr>) = Known 0"
    and b: "data_AccountID (null_model\<lparr>data_AccountID := Known []\<rparr>) = Known []"
    by simp_all
  from a explicit_zero_or_empty [where data = "null_model\<lparr>data_RPS := Known 0\<rparr>" and r = 0,
      THEN conjunct1]
  have c: "framework_rps example_constants (env_host ''CLOUDFLARE_RPS'' ''10'')
     (null_model\<lparr>data_RPS := Known 0\<rparr>) = 0"
    by simp
  from b explicit_zero_or_empty [where data = "null_model\<lparr>data_AccountID := Known []\<rparr>"
      and s = "[]", THEN conjunct2, THEN conjunct2, THEN conjunct2, THEN conjunct2,
      THEN conjunct2, THEN conjunct2, THEN conjunct1]
  have e: "framework_accountID example_constants (env_host ''CLOUDFLARE_ACCOUNT_ID'' ''acct123'')
     (null_model\<lparr>data_AccountID := Known []\<rparr>) = []"
    by simp
  show ?thesis
    by (intro conjI) (fact a b c e)+
qed

theorem explicit_zero_counterexample:
  "d_rps (no_input\<lparr>d_rps := Some 0\<rparr>) = Some 0 \<and>
   sdkv2_rps example_constants (env_host ''CLOUDFLARE_RPS'' ''10'') (no_input\<lparr>d_rps := Some 0\<rparr>) = 10 \<and>
   sdkv2_rps example_constants empty_host (no_input\<lparr>d_rps := Some 0\<rparr>) = 4"
  by (simp add: sdkv2_field_defs library_defs example_defs)

end
